theory Spec2Isabelle
  imports Complex_Main
begin

section \<open>Circuit breaker (elate\_chatbot/edge\_case\_middleware.py, class CircuitBreaker)\<close>

text \<open>
  The breaker is a Python object with six attributes.  Readings of \<open>time.time()\<close> are
  modelled as real numbers handed to the functions that read the clock.  The wrapped
  operation is a function on a world state \<open>'w\<close>: it returns either the error it raises
  (\<open>Inl\<close>) or its result (\<open>Inr\<close>), together with the world it leaves behind, so that
  whether the operation ran at all is visible in the world that comes back.
  \<open>expected_exception\<close> is the class given to \<open>except\<close>; it is modelled as the predicate
  "is an instance of that class" on the errors of the operation.
\<close>

datatype circuit_state = CLOSED | OPEN | HALF_OPEN

record 'e circuit_breaker =
  failure_threshold :: int
  recovery_timeout :: real
  expected_exception :: "'e \<Rightarrow> bool"
  failure_count :: int
  last_failure_time :: "real option"
  state :: circuit_state

text \<open>
  What \<open>CircuitBreaker.call\<close> can raise: the plain \<open>Exception("Circuit breaker is OPEN
  for ...")\<close> of line 58 (the spec's CircuitOpenError), the operation's own error, or the
  \<open>TypeError\<close> of \<open>time.time() - None\<close> when an OPEN breaker has no failure time.
\<close>

datatype 'e call_error = CircuitOpenError | Raised 'e | TypeError

definition init_breaker :: "int \<Rightarrow> real \<Rightarrow> ('e \<Rightarrow> bool) \<Rightarrow> 'e circuit_breaker" where
  "init_breaker ft rt ee =
     \<lparr>failure_threshold = ft, recovery_timeout = rt, expected_exception = ee,
      failure_count = 0, last_failure_time = None, state = CLOSED\<rparr>"

definition on_success :: "'e circuit_breaker \<Rightarrow> 'e circuit_breaker" where
  "on_success b = b\<lparr>failure_count := 0, state := CLOSED\<rparr>"

definition on_failure :: "real \<Rightarrow> 'e circuit_breaker \<Rightarrow> 'e circuit_breaker" where
  "on_failure now b =
     (let b1 = b\<lparr>failure_count := failure_count b + 1, last_failure_time := Some now\<rparr>
      in if failure_count b1 \<ge> failure_threshold b1 then b1\<lparr>state := OPEN\<rparr> else b1)"

text \<open>Lines 54 to 58 of \<open>call\<close>: the check made before the operation is invoked.\<close>

definition admit :: "real \<Rightarrow> 'e circuit_breaker \<Rightarrow> 'e call_error + 'e circuit_breaker" where
  "admit now b =
     (if state b = OPEN then
        (case last_failure_time b of
           None \<Rightarrow> Inl TypeError
         | Some t \<Rightarrow>
             if now - t > recovery_timeout b then Inr (b\<lparr>state := HALF_OPEN\<rparr>)
             else Inl CircuitOpenError)
      else Inr b)"

text \<open>
  \<open>call b now now' func w\<close>: \<open>now\<close> is the clock read at line 55, \<open>now'\<close> the clock read
  by \<open>_on_failure\<close> at line 76.  An error that is not an instance of
  \<open>expected_exception\<close> passes through the \<open>except\<close> clause untouched.
\<close>

definition call ::
  "'e circuit_breaker \<Rightarrow> real \<Rightarrow> real \<Rightarrow> ('w \<Rightarrow> ('e + 'a) \<times> 'w) \<Rightarrow> 'w
     \<Rightarrow> ('e call_error + 'a) \<times> 'e circuit_breaker \<times> 'w" where
  "call b now now' func w =
     (case admit now b of
        Inl err \<Rightarrow> (Inl err, b, w)
      | Inr b1 \<Rightarrow>
          (case func w of
             (Inr result, w') \<Rightarrow> (Inr result, on_success b1, w')
           | (Inl e, w') \<Rightarrow>
               if expected_exception b1 e then (Inl (Raised e), on_failure now' b1, w')
               else (Inl (Raised e), b1, w')))"

text \<open>
  A caller making one call after the other on the same breaker; each entry gives the two
  clock readings and the operation of that call.
\<close>

fun run_calls ::
  "'e circuit_breaker \<Rightarrow> 'w \<Rightarrow> (real \<times> real \<times> ('w \<Rightarrow> ('e + 'a) \<times> 'w)) list
     \<Rightarrow> 'e circuit_breaker \<times> 'w" where
  "run_calls b w [] = (b, w)"
| "run_calls b w ((now, now', func) # cs) =
     (case call b now now' func w of (_, b', w') \<Rightarrow> run_calls b' w' cs)"

text \<open>An operation that raises wherever it is run.\<close>

definition always_fails :: "('w \<Rightarrow> ('e + 'a) \<times> 'w) \<Rightarrow> bool" where
  "always_fails func \<longleftrightarrow> (\<forall>w. \<exists>e. fst (func w) = Inl e)"

text \<open>An operation that raises, wherever it is run, an error the breaker counts.\<close>

definition fails_expected :: "'e circuit_breaker \<Rightarrow> ('w \<Rightarrow> ('e + 'a) \<times> 'w) \<Rightarrow> bool" where
  "fails_expected b func \<longleftrightarrow> (\<forall>w. \<exists>e. fst (func w) = Inl e \<and> expected_exception b e)"

text \<open>
  The breaker is OPEN, or it is CLOSED and the \<open>n\<close> counted failures still to come take
  the counter to the threshold.
\<close>

definition will_open :: "'e circuit_breaker \<Rightarrow> nat \<Rightarrow> bool" where
  "will_open b n \<longleftrightarrow>
     (state b = OPEN \<and> failure_threshold b \<le> failure_count b \<and> last_failure_time b \<noteq> None)
   \<or> (state b = CLOSED \<and> failure_threshold b \<le> failure_count b + int n \<and> 1 \<le> n)"

section \<open>Retry decorator (elate\_chatbot/edge\_case\_middleware.py, retry\_on\_failure)\<close>

text \<open>
  \<open>time.sleep(secs)\<close>: the interpreter first converts the number to its clock type and
  raises \<open>OverflowError\<close> when it does not fit; \<open>sleep_max\<close> is the largest number of
  seconds that fits, which depends on the platform.  A negative number that fits is
  refused with \<open>ValueError\<close>.  Otherwise the call sleeps and returns.
\<close>

datatype sleep_error = ValueError | OverflowError

definition time_sleep :: "real \<Rightarrow> real \<Rightarrow> sleep_error option" where
  "time_sleep sleep_max secs =
     (if secs < - sleep_max \<or> sleep_max < secs then Some OverflowError
      else if secs < 0 then Some ValueError
      else None)"

text \<open>
  The decorated function is a function on a world state, together with its attribute
  \<open>__name__\<close> (\<open>func_name\<close>, \<open>None\<close> for a callable that has none, such as a
  \<open>functools.partial\<close>).  What the wrapper does besides returning is recorded as a list
  of events, in the order in which they happen: \<open>Call out\<close> for one invocation of the
  function that ended with \<open>out\<close>, \<open>Sleep d\<close> for a \<open>time.sleep(d)\<close> that returned, and the
  two log lines.  \<open>exceptions\<close> is the tuple of classes given to \<open>except\<close>, as a predicate
  on errors.  The numbers are Python's unbounded integers or, for floats, taken as exact.
\<close>

datatype ('e, 'a) retry_event =
  Call "'e + 'a" | Sleep real | LogWarning nat string 'e real | LogError int string 'e

text \<open>
  The wrapper raises the error of the function (\<open>Reraised\<close>); or, when the loop body never
  ran, executes \<open>raise None\<close>, which is a \<open>TypeError\<close> in Python (\<open>RaisedNone\<close>); or an
  error is raised inside the \<open>except\<close> block and leaves the wrapper from there: the
  \<open>AttributeError\<close> of reading \<open>func.__name__\<close> for a log line, or the error of
  \<open>time.sleep\<close>.
\<close>

datatype 'e retry_error =
  Reraised 'e | RaisedNone | RaisedAttributeError | RaisedBySleep sleep_error

text \<open>
  The \<open>for attempt in range(max_retries + 1)\<close> loop, by recursion on the attempts still
  to be made; \<open>last_exception\<close> is the variable of that name.
\<close>

fun retry_loop ::
  "real \<Rightarrow> string option \<Rightarrow> int \<Rightarrow> real \<Rightarrow> real \<Rightarrow> ('e \<Rightarrow> bool) \<Rightarrow> ('w \<Rightarrow> ('e + 'a) \<times> 'w)
     \<Rightarrow> nat list \<Rightarrow> 'e option \<Rightarrow> 'w
     \<Rightarrow> ('e retry_error + 'a) \<times> 'w \<times> ('e, 'a) retry_event list" where
  "retry_loop sleep_max func_name max_retries delay backoff_factor exceptions func []
       last_exception w =
     ((case last_exception of None \<Rightarrow> Inl RaisedNone | Some e \<Rightarrow> Inl (Reraised e)), w, [])"
| "retry_loop sleep_max func_name max_retries delay backoff_factor exceptions func (attempt # rest)
       last_exception w =
     (case func w of
        (Inr v, w1) \<Rightarrow> (Inr v, w1, [Call (Inr v)])
      | (Inl e, w1) \<Rightarrow>
          if exceptions e then
            (if int attempt < max_retries then
               (let current_delay = delay * backoff_factor ^ attempt in
                case func_name of
                  None \<Rightarrow> (Inl RaisedAttributeError, w1, [Call (Inl e)])
                | Some name \<Rightarrow>
                    (case time_sleep sleep_max current_delay of
                       Some err \<Rightarrow>
                         (Inl (RaisedBySleep err), w1,
                          [Call (Inl e), LogWarning (attempt + 1) name e current_delay])
                     | None \<Rightarrow>
                         (let (r, w2, tr) =
                                retry_loop sleep_max func_name max_retries delay backoff_factor
                                  exceptions func rest (Some e) w1
                          in (r, w2,
                              Call (Inl e) # LogWarning (attempt + 1) name e current_delay
                                # Sleep current_delay # tr))))
             else
               (case func_name of
                  None \<Rightarrow> (Inl RaisedAttributeError, w1, [Call (Inl e)])
                | Some name \<Rightarrow>
                    (let (r, w2, tr) =
                           retry_loop sleep_max func_name max_retries delay backoff_factor
                             exceptions func rest (Some e) w1
                     in (r, w2, Call (Inl e) # LogError (max_retries + 1) name e # tr))))
          else (Inl (Reraised e), w1, [Call (Inl e)]))"

definition retry_on_failure ::
  "real \<Rightarrow> string option \<Rightarrow> int \<Rightarrow> real \<Rightarrow> real \<Rightarrow> ('e \<Rightarrow> bool) \<Rightarrow> ('w \<Rightarrow> ('e + 'a) \<times> 'w) \<Rightarrow> 'w
     \<Rightarrow> ('e retry_error + 'a) \<times> 'w \<times> ('e, 'a) retry_event list" where
  "retry_on_failure sleep_max func_name max_retries delay backoff_factor exceptions func w =
     retry_loop sleep_max func_name max_retries delay backoff_factor exceptions func
       [0 ..< nat (max_retries + 1)] None w"

text \<open>Readings of the event list: the outcomes of the invocations and the sleeps, in order.\<close>

fun calls_of :: "('e, 'a) retry_event list \<Rightarrow> ('e + 'a) list" where
  "calls_of [] = []"
| "calls_of (Call c # tr) = c # calls_of tr"
| "calls_of (_ # tr) = calls_of tr"

fun sleeps_of :: "('e, 'a) retry_event list \<Rightarrow> real list" where
  "sleeps_of [] = []"
| "sleeps_of (Sleep d # tr) = d # sleeps_of tr"
| "sleeps_of (_ # tr) = sleeps_of tr"

fun calls_and_sleeps :: "('e, 'a) retry_event list \<Rightarrow> ('e, 'a) retry_event list" where
  "calls_and_sleeps [] = []"
| "calls_and_sleeps (Call c # tr) = Call c # calls_and_sleeps tr"
| "calls_and_sleeps (Sleep d # tr) = Sleep d # calls_and_sleeps tr"
| "calls_and_sleeps (_ # tr) = calls_and_sleeps tr"

text \<open>
  The invocations and sleeps of a run whose invocations ended with \<open>cs\<close>: every
  invocation but the last is followed by one sleep, and the sleep after the invocation
  with index \<open>i\<close> (counted from the argument \<open>i\<close> of the first) lasts
  \<open>delay * backoff_factor ^ i\<close>.
\<close>

fun schedule :: "real \<Rightarrow> real \<Rightarrow> nat \<Rightarrow> ('e + 'a) list \<Rightarrow> ('e, 'a) retry_event list" where
  "schedule delay backoff_factor i [] = []"
| "schedule delay backoff_factor i [c] = [Call c]"
| "schedule delay backoff_factor i (c # c' # cs) =
     Call c # Sleep (delay * backoff_factor ^ i) # schedule delay backoff_factor (Suc i) (c' # cs)"

section \<open>Exceptions, requests and responses\<close>

text \<open>
  The exception classes the middleware tests with \<open>isinstance\<close>, with the classes of
  \<open>django.db\<close>, \<open>requests.exceptions\<close> and \<open>redis.exceptions\<close> that inherit from them;
  \<open>OtherException\<close> stands for every class outside these hierarchies.  \<open>ConnectionError\<close>
  is the one of \<open>requests\<close> (the module imports the one of \<open>redis\<close> under another name).
\<close>

datatype exc_class =
    DatabaseError | OperationalError
  | ValidationError | PermissionDenied | Http404
  | RequestException | Timeout | ConnectionError | ConnectTimeout
  | RedisError | RedisConnectionError
  | OtherException

fun bases :: "exc_class \<Rightarrow> exc_class list" where
  "bases OperationalError = [DatabaseError]"
| "bases Timeout = [RequestException]"
| "bases ConnectionError = [RequestException]"
| "bases ConnectTimeout = [ConnectionError, Timeout, RequestException]"
| "bases RedisConnectionError = [RedisError]"
| "bases _ = []"

text \<open>
  An exception object: its class, \<open>str(exception)\<close>, \<open>type(exception).__name__\<close>, and the
  attributes the handlers look for with \<open>hasattr\<close> (\<open>None\<close> when the object has none).
\<close>

record exception =
  exc_class :: exc_class
  exc_str :: string
  exc_type_name :: string
  status_code :: "int option"
  message_dict :: "(string \<times> string list) list option"
  messages :: "string list option"

definition isinstance :: "exception \<Rightarrow> exc_class \<Rightarrow> bool" where
  "isinstance e c \<longleftrightarrow> exc_class e = c \<or> List.member (bases (exc_class e)) c"

text \<open>
  A \<open>JsonResponse\<close>: the status, the dictionary as the list of its items, and the headers
  that a middleware sets with \<open>response[name] = value\<close>.
\<close>

datatype jvalue = JStr string | JList "string list" | JDict "(string \<times> string list) list"

record response =
  status :: nat
  body :: "(string \<times> jvalue) list"
  headers :: "string \<rightharpoonup> string"

definition JsonResponse :: "(string \<times> jvalue) list \<Rightarrow> nat \<Rightarrow> response" where
  "JsonResponse data st = \<lparr>status = st, body = data, headers = Map.empty\<rparr>"

text \<open>
  A row of the table \<open>user_sessions\<close> (users/models.py, class UserSession).  A
  \<open>datetime\<close> is a number of microseconds, the resolution of Python's datetime.  The
  primary key of a row is its position in the table; a model instance in memory is the
  pair of the primary key and the field values it holds.
\<close>

type_synonym datetime = int

record UserSession =
  user_id :: nat
  session_key :: string
  ip_address :: string
  user_agent :: string
  device_type :: string
  browser :: string
  operating_system :: string
  started_at :: datetime
  last_activity :: datetime
  ended_at :: "datetime option"
  is_active :: bool
  page_views :: nat
  chat_interactions :: nat

type_synonym session_obj = "nat \<times> UserSession"

text \<open>
  \<open>request.user\<close>: Django's \<open>AnonymousUser\<close>, or a \<open>CustomUser\<close> with its primary key and
  its email.
\<close>

datatype user = AnonymousUser | CustomUser nat string

fun is_authenticated :: "user \<Rightarrow> bool" where
  "is_authenticated AnonymousUser = False"
| "is_authenticated (CustomUser _ _) = True"

text \<open>
  The request object: the HTTP data Django supplies (\<open>request.method\<close>, the path, the
  entries of \<open>request.META\<close> the code reads, the user, the key of the Django session) and
  the attributes the middleware classes set on it.  \<open>CONTENT_LENGTH\<close> is \<open>None\<close> when the
  entry is missing or falsy (an empty text), \<open>Some None\<close> when it is a text that
  \<open>int()\<close> rejects with a \<open>ValueError\<close>, \<open>Some (Some n)\<close> when \<open>int()\<close> reads it as \<open>n\<close>.
  \<open>user_session\<close> is \<open>None\<close> while the attribute is not set, \<open>Some None\<close> when it is set
  to \<open>None\<close>.  \<open>retry_count\<close> is set to 0 by \<open>process_request\<close> and only ever
  incremented, so it is a natural number.
\<close>

record request =
  req_method :: string
  path :: string
  CONTENT_LENGTH :: "int option option"
  CONTENT_TYPE :: "string option"
  HTTP_USER_AGENT :: "string option"
  HTTP_X_FORWARDED_FOR :: "string option"
  REMOTE_ADDR :: "string option"
  req_user :: user
  django_session_key :: "string option"
  request_id :: "string option"
  start_time :: "real option"
  retry_count :: nat
  max_retries :: int
  retry_delay :: real
  backoff_factor :: real
  session_start_time :: "real option"
  user_session :: "session_obj option option"

text \<open>
  \<open>str.lower\<close>, \<open>str.startswith\<close> and \<open>sub in s\<close> on ASCII text.
\<close>

definition lower_char :: "char \<Rightarrow> char" where
  "lower_char c =
     (case map_of (zip ''ABCDEFGHIJKLMNOPQRSTUVWXYZ'' ''abcdefghijklmnopqrstuvwxyz'') c of
        Some l \<Rightarrow> l
      | None \<Rightarrow> c)"

definition lower :: "string \<Rightarrow> string" where
  "lower s = map lower_char s"

fun startswith :: "string \<Rightarrow> string \<Rightarrow> bool" where
  "startswith s [] = True"
| "startswith [] (p # ps) = False"
| "startswith (c # cs) (p # ps) = (c = p \<and> startswith cs ps)"

fun contains :: "string \<Rightarrow> string \<Rightarrow> bool" where
  "contains sub [] = (sub = [])"
| "contains sub (c # cs) = (startswith (c # cs) sub \<or> contains sub cs)"

section \<open>RetryMiddleware (elate\_chatbot/edge\_case\_middleware.py)\<close>

text \<open>
  \<open>process_exception\<close>: the result is the exception that leaves the method (the error of
  \<open>time.sleep(delay)\<close>, which is called outside any \<open>try\<close>) or what the method returns and
  Django takes as the response (\<open>None\<close>: go on to the next handler); then the request
  with its attributes as the method leaves them, and the effects in order: the log line
  and the \<open>time.sleep(delay)\<close> that returned.  \<open>sleep_max\<close> is the parameter of
  \<open>time_sleep\<close>.
\<close>

datatype retry_effect =
    Slept real
  | LoggedRetrying string nat int real
  | LoggedMaxRetriesExceeded string

definition should_retry :: "request \<Rightarrow> exception \<Rightarrow> bool" where
  "should_retry request exception =
     (if \<not> List.member [''GET'', ''POST'', ''PUT'', ''PATCH''] (req_method request) then False
      else if list_ex (isinstance exception) [ValidationError, PermissionDenied, Http404]
        then False
      else if (case status_code exception of
                 Some sc \<Rightarrow> List.member [400, 401, 403, 404, 422] sc
               | None \<Rightarrow> False)
        then False
      else True)"

text \<open>
  \<open>process_request\<close> copies the settings \<open>MAX_RETRIES\<close>, \<open>RETRY_DELAY\<close> and
  \<open>BACKOFF_FACTOR\<close> (3, 1 and 2 when unset) to the request and sets its \<open>retry_count\<close>
  to 0.
\<close>

definition RetryMiddleware_process_request :: "int \<Rightarrow> real \<Rightarrow> real \<Rightarrow> request \<Rightarrow> request" where
  "RetryMiddleware_process_request MAX_RETRIES RETRY_DELAY BACKOFF_FACTOR request =
     request\<lparr>retry_count := 0, max_retries := MAX_RETRIES, retry_delay := RETRY_DELAY,
             backoff_factor := BACKOFF_FACTOR\<rparr>"

definition RetryMiddleware_process_exception ::
  "real \<Rightarrow> request \<Rightarrow> exception \<Rightarrow> (sleep_error + response option) \<times> request \<times> retry_effect list"
  where
  "RetryMiddleware_process_exception sleep_max request exception =
     (if \<not> should_retry request exception then (Inr None, request, [])
      else
        let request1 = request\<lparr>retry_count := retry_count request + 1\<rparr> in
        if int (retry_count request1) \<le> max_retries request1 then
          let delay = retry_delay request1
                        * backoff_factor request1 ^ (retry_count request1 - 1)
          in (case time_sleep sleep_max delay of
                Some err \<Rightarrow>
                  (Inl err, request1,
                   [LoggedRetrying (path request1) (retry_count request1) (max_retries request1)
                      delay])
              | None \<Rightarrow>
                  (Inr None, request1,
                   [LoggedRetrying (path request1) (retry_count request1) (max_retries request1)
                      delay,
                    Slept delay]))
        else (Inr None, request1, [LoggedMaxRetriesExceeded (path request1)]))"

section \<open>EdgeCaseHandlingMiddleware (elate\_chatbot/edge\_case\_middleware.py)\<close>

text \<open>
  The only state of the middleware object is the dictionary \<open>circuit_breakers\<close>.  The
  identifiers \<open>str(uuid.uuid4())\<close>, the clock, the outcome of the two health probes,
  \<open>settings.DEBUG\<close> and the lines of \<open>traceback.format_exc()\<close> come from outside and are
  arguments.  Log lines of this class are not modelled; neither are the attempts of
  \<open>_handle_database_error\<close> and \<open>_handle_cache_error\<close> to reconnect, which are caught
  where they fail and do not reach the response.
\<close>

record edge_middleware =
  circuit_breakers :: "string \<rightharpoonup> exception circuit_breaker"

definition init_edge_middleware :: edge_middleware where
  "init_edge_middleware = \<lparr>circuit_breakers = Map.empty\<rparr>"

definition retry_config_max_retries :: int where
  "retry_config_max_retries = 3"

definition check_system_health :: "bool \<Rightarrow> bool \<Rightarrow> bool" where
  "check_system_health db_ok cache_ok =
     (if \<not> db_ok then False else if \<not> cache_ok then False else True)"

definition request_id_or_unknown :: "request \<Rightarrow> string" where
  "request_id_or_unknown request =
     (case request_id request of Some i \<Rightarrow> i | None \<Rightarrow> ''unknown'')"

definition create_health_check_response :: "request \<Rightarrow> response" where
  "create_health_check_response request =
     JsonResponse
       [(''error'', JStr ''Service temporarily unavailable''),
        (''message'',
           JStr ''The service is currently experiencing issues. Please try again later.''),
        (''error_id'', JStr (request_id_or_unknown request)),
        (''code'', JStr ''SERVICE_UNAVAILABLE'')]
       503"

definition body_methods :: "string list" where
  "body_methods = [''POST'', ''PUT'', ''PATCH'']"

text \<open>
  \<open>_validate_request_data\<close>.  The first case is the handler of the \<open>try\<close> block: the only
  statement of the block that raises on the modelled data is \<open>int(content_length)\<close>.
\<close>

definition validate_request_data :: "request \<Rightarrow> response option" where
  "validate_request_data request =
     (if List.member body_methods (req_method request) \<and> CONTENT_LENGTH request = Some None
      then Some (JsonResponse
                   [(''error'', JStr ''Request validation failed''),
                    (''message'', JStr ''Unable to validate request data.''),
                    (''code'', JStr ''VALIDATION_ERROR'')]
                   400)
      else if List.member body_methods (req_method request)
              \<and> (case CONTENT_LENGTH request of
                     Some (Some n) \<Rightarrow> n > 10 * 1024 * 1024
                   | _ \<Rightarrow> False)
      then Some (JsonResponse
                   [(''error'', JStr ''Request too large''),
                    (''message'', JStr ''Request body exceeds maximum allowed size.''),
                    (''code'', JStr ''REQUEST_TOO_LARGE'')]
                   413)
      else if startswith (path request) ''/api/''
              \<and> List.member body_methods (req_method request)
              \<and> \<not> startswith (case CONTENT_TYPE request of Some t \<Rightarrow> t | None \<Rightarrow> [])
                     ''application/json''
      then Some (JsonResponse
                   [(''error'', JStr ''Invalid content type''),
                    (''message'',
                       JStr ''Content-Type must be application/json for API requests.''),
                    (''code'', JStr ''INVALID_CONTENT_TYPE'')]
                   400)
      else None)"

definition EdgeCase_process_request ::
  "string \<Rightarrow> real \<Rightarrow> bool \<Rightarrow> bool \<Rightarrow> request \<Rightarrow> response option \<times> request" where
  "EdgeCase_process_request new_id now db_ok cache_ok request =
     (let request1 = request\<lparr>request_id := Some new_id, start_time := Some now\<rparr> in
      if \<not> check_system_health db_ok cache_ok
      then (Some (create_health_check_response request1), request1)
      else
        (case validate_request_data request1 of
           Some validation_error \<Rightarrow> (Some validation_error, request1)
         | None \<Rightarrow>
             (None, request1\<lparr>retry_count := 0, max_retries := retry_config_max_retries\<rparr>)))"

definition handle_database_error :: "bool \<Rightarrow> exception \<Rightarrow> string \<Rightarrow> response" where
  "handle_database_error debug exception error_id =
     (if debug then
        JsonResponse
          [(''error'', JStr ''Database error''),
           (''error_id'', JStr error_id),
           (''message'', JStr (exc_str exception)),
           (''type'', JStr (exc_type_name exception))]
          500
      else
        JsonResponse
          [(''error'', JStr ''Database error''),
           (''error_id'', JStr error_id),
           (''message'', JStr ''A database error occurred. Please try again later.''),
           (''code'', JStr ''DATABASE_ERROR'')]
          500)"

definition handle_validation_error :: "exception \<Rightarrow> string \<Rightarrow> response" where
  "handle_validation_error exception error_id =
     (let errors =
        (case message_dict exception of
           Some d \<Rightarrow> JDict d
         | None \<Rightarrow>
             (case messages exception of
                Some ms \<Rightarrow> JList ms
              | None \<Rightarrow> JList [exc_str exception]))
      in JsonResponse
           [(''error'', JStr ''Validation error''),
            (''error_id'', JStr error_id),
            (''message'', JStr ''The provided data is invalid.''),
            (''errors'', errors),
            (''code'', JStr ''VALIDATION_ERROR'')]
           400)"

definition handle_permission_error :: "string \<Rightarrow> response" where
  "handle_permission_error error_id =
     JsonResponse
       [(''error'', JStr ''Permission denied''),
        (''error_id'', JStr error_id),
        (''message'', JStr ''You do not have permission to perform this action.''),
        (''code'', JStr ''PERMISSION_DENIED'')]
       403"

definition handle_not_found_error :: "string \<Rightarrow> response" where
  "handle_not_found_error error_id =
     JsonResponse
       [(''error'', JStr ''Resource not found''),
        (''error_id'', JStr error_id),
        (''message'', JStr ''The requested resource was not found.''),
        (''code'', JStr ''NOT_FOUND'')]
       404"

definition get_service_name_from_request :: "request \<Rightarrow> string option" where
  "get_service_name_from_request request =
     (if contains ''openai'' (lower (path request)) then Some ''openai''
      else if contains ''email'' (lower (path request)) then Some ''email''
      else if contains ''sms'' (lower (path request)) then Some ''sms''
      else None)"

definition get_circuit_breaker ::
  "edge_middleware \<Rightarrow> string \<Rightarrow> exception circuit_breaker \<times> edge_middleware" where
  "get_circuit_breaker mw service_name =
     (case circuit_breakers mw service_name of
        Some cb \<Rightarrow> (cb, mw)
      | None \<Rightarrow>
          (let cb = init_breaker 5 60 (\<lambda>e. True)
           in (cb, mw\<lparr>circuit_breakers := (circuit_breakers mw)(service_name \<mapsto> cb)\<rparr>)))"

definition external_error_response :: "exception \<Rightarrow> string \<Rightarrow> response" where
  "external_error_response exception error_id =
     (let (error_message, error_code) =
        (if isinstance exception Timeout
           then (''External service request timed out.'', ''EXTERNAL_SERVICE_TIMEOUT'')
         else if isinstance exception ConnectionError
           then (''Unable to connect to external service.'', ''EXTERNAL_SERVICE_CONNECTION_ERROR'')
         else (''External service error occurred.'', ''EXTERNAL_SERVICE_ERROR''))
      in JsonResponse
           [(''error'', JStr ''External service error''),
            (''error_id'', JStr error_id),
            (''message'', JStr error_message),
            (''code'', JStr error_code)]
           502)"

definition service_unavailable_response :: "string \<Rightarrow> response" where
  "service_unavailable_response error_id =
     JsonResponse
       [(''error'', JStr ''External service unavailable''),
        (''error_id'', JStr error_id),
        (''message'', JStr ''External service is temporarily unavailable.''),
        (''code'', JStr ''EXTERNAL_SERVICE_UNAVAILABLE'')]
       503"

definition handle_external_api_error ::
  "edge_middleware \<Rightarrow> request \<Rightarrow> exception \<Rightarrow> string \<Rightarrow> response \<times> edge_middleware" where
  "handle_external_api_error mw request exception error_id =
     (case get_service_name_from_request request of
        Some service_name \<Rightarrow>
          (let (circuit_breaker, mw1) = get_circuit_breaker mw service_name in
           if state circuit_breaker = OPEN
           then (service_unavailable_response error_id, mw1)
           else (external_error_response exception error_id, mw1))
      | None \<Rightarrow> (external_error_response exception error_id, mw))"

definition handle_generic_error ::
  "bool \<Rightarrow> string list \<Rightarrow> exception \<Rightarrow> string \<Rightarrow> response" where
  "handle_generic_error debug traceback_lines exception error_id =
     (if debug then
        JsonResponse
          [(''error'', JStr ''Internal server error''),
           (''error_id'', JStr error_id),
           (''message'', JStr (exc_str exception)),
           (''type'', JStr (exc_type_name exception)),
           (''traceback'', JList traceback_lines)]
          500
      else
        JsonResponse
          [(''error'', JStr ''Internal server error''),
           (''error_id'', JStr error_id),
           (''message'', JStr ''An unexpected error occurred. Please try again later.''),
           (''code'', JStr ''INTERNAL_ERROR'')]
          500)"

definition EdgeCase_process_exception ::
  "edge_middleware \<Rightarrow> bool \<Rightarrow> string list \<Rightarrow> string \<Rightarrow> request \<Rightarrow> exception
     \<Rightarrow> response option \<times> edge_middleware" where
  "EdgeCase_process_exception mw debug traceback_lines error_id request exception =
     (if isinstance exception DatabaseError
        then (Some (handle_database_error debug exception error_id), mw)
      else if isinstance exception ValidationError
        then (Some (handle_validation_error exception error_id), mw)
      else if isinstance exception PermissionDenied
        then (Some (handle_permission_error error_id), mw)
      else if isinstance exception Http404
        then (Some (handle_not_found_error error_id), mw)
      else if isinstance exception RequestException
        then (let (r, mw1) = handle_external_api_error mw request exception error_id
              in (Some r, mw1))
      else if isinstance exception RedisError
        then (None, mw)
      else (Some (handle_generic_error debug traceback_lines exception error_id), mw))"

text \<open>The same middleware object handling one exception after the other.\<close>

fun process_exceptions ::
  "edge_middleware \<Rightarrow> bool \<Rightarrow> string list \<Rightarrow> (string \<times> request \<times> exception) list
     \<Rightarrow> response option list \<times> edge_middleware" where
  "process_exceptions mw debug tb [] = ([], mw)"
| "process_exceptions mw debug tb ((error_id, request, exception) # rest) =
     (case EdgeCase_process_exception mw debug tb error_id request exception of
        (r, mw1) \<Rightarrow>
          (case process_exceptions mw1 debug tb rest of (rs, mw2) \<Rightarrow> (r # rs, mw2)))"

text \<open>The request and the exception of the repository's integration test.\<close>

definition openai_request :: request where
  "openai_request =
     \<lparr>req_method = ''GET'', path = ''/api/v1/chatbot/openai/'',
      CONTENT_LENGTH = None, CONTENT_TYPE = None, HTTP_USER_AGENT = None,
      HTTP_X_FORWARDED_FOR = None, REMOTE_ADDR = Some ''127.0.0.1'',
      req_user = AnonymousUser, django_session_key = None,
      request_id = Some ''request-1'', start_time = Some 0,
      retry_count = 0, max_retries = 3, retry_delay = 1, backoff_factor = 2,
      session_start_time = None, user_session = None\<rparr>"

definition openai_timeout :: exception where
  "openai_timeout =
     \<lparr>exc_class = Timeout, exc_str = ''OpenAI API timeout'', exc_type_name = ''Timeout'',
      status_code = None, message_dict = None, messages = None\<rparr>"

text \<open>Every circuit breaker the middleware holds is CLOSED.\<close>

definition all_closed :: "edge_middleware \<Rightarrow> bool" where
  "all_closed mw \<longleftrightarrow> (\<forall>name cb. circuit_breakers mw name = Some cb \<longrightarrow> state cb = CLOSED)"

section \<open>Session management (users/models.py, users/middleware.py)\<close>

text \<open>
  What \<open>user_agents.parse\<close> reports about a user-agent string.  The library is not part
  of the repository; the parser is an argument \<open>parse\<close> of the functions that call it.
\<close>

record parsed_ua =
  is_mobile :: bool
  is_tablet :: bool
  is_pc :: bool
  browser_family :: string
  os_family :: string

text \<open>
  The places where a call leaves the middleware (database, cache, user-agent parser) and
  can raise, and one place (\<open>ConsistencyBody\<close>) for an exception raised in the \<open>try\<close>
  block of \<open>_check_session_consistency\<close> by the statements that follow the test
  \<open>if not user_session\<close>.  A set of such places, \<open>faults\<close>, says which of them raise
  during a request.
\<close>

datatype site =
    DbLookup | DbSaveLastActivity | UaParse | DbCreate | UserSave | CacheSetAnonymous
  | ConsistencyBody | CacheGetRate | CacheSetRate | DbCount | DbOldest | DbSaveEnd
  | DbSaveCounters

text \<open>
  Exceptions of the session layer: a fault at a site; the \<open>IntegrityError\<close> of a
  violated \<open>unique\<close> or \<open>NOT NULL\<close> constraint; the \<open>AttributeError\<close> of an attribute
  read on \<open>None\<close> or of \<open>AnonymousUser.email\<close>; the error Django raises when an
  \<open>AnonymousUser\<close> is used as a model instance; the \<open>DatabaseError\<close> of a
  \<open>save(update_fields=...)\<close> that updates no row.
\<close>

datatype py_exn =
  Fault site | IntegrityError | AttributeError | AnonymousUserRejected | NoRowsUpdated

datatype level = INFO | WARNING | ERROR

text \<open>A log line: level, text, and the exception printed at its end, if any.\<close>

datatype log_entry = Log level string "py_exn option"

text \<open>
  Everything outside the request that the session middleware reads or writes: the table
  of sessions, the \<open>last_activity\<close> column of the users, the request counters of the
  cache (the entries \<open>request_rate:<ip>:<user id>\<close>, by printed address and user id), the
  records of anonymous requests stored in the cache, and the log.  Expiry of cache
  entries is left to the cache and not modelled.
\<close>

record world =
  sessions :: "UserSession list"
  user_last_activity :: "nat \<rightharpoonup> datetime"
  request_rate :: "string \<times> nat option \<rightharpoonup> int"
  anonymous_sessions :: "(string option \<times> string \<times> datetime \<times> string) list"
  logs :: "log_entry list"

definition write_log :: "level \<Rightarrow> string \<Rightarrow> py_exn option \<Rightarrow> world \<Rightarrow> world" where
  "write_log lv msg e w = w\<lparr>logs := logs w @ [Log lv msg e]\<rparr>"

fun user_email :: "user \<Rightarrow> string option" where
  "user_email AnonymousUser = None"
| "user_email (CustomUser _ email) = Some email"

fun user_pk :: "user \<Rightarrow> nat option" where
  "user_pk AnonymousUser = None"
| "user_pk (CustomUser pk _) = Some pk"

text \<open>How an f-string prints a value that may be \<open>None\<close>.\<close>

definition str_opt :: "string option \<Rightarrow> string" where
  "str_opt v = (case v of None \<Rightarrow> ''None'' | Some s \<Rightarrow> s)"

text \<open>
  \<open>str.strip()\<close> on text whose characters are code points below 256, as the values of
  \<open>request.META\<close> are: the characters for which \<open>str.isspace\<close> holds are removed at both
  ends.
\<close>

definition is_space :: "char \<Rightarrow> bool" where
  "is_space c \<longleftrightarrow>
     List.member [CHR 0x09, CHR 0x0A, CHR 0x0B, CHR 0x0C, CHR 0x0D,
                  CHR 0x1C, CHR 0x1D, CHR 0x1E, CHR 0x1F, CHR 0x20, CHR 0x85, CHR 0xA0] c"

definition strip :: "string \<Rightarrow> string" where
  "strip s = rev (dropWhile is_space (rev (dropWhile is_space s)))"

definition get_client_ip :: "request \<Rightarrow> string option" where
  "get_client_ip request =
     (case HTTP_X_FORWARDED_FOR request of
        Some x_forwarded_for \<Rightarrow>
          if x_forwarded_for \<noteq> []
          then Some (strip (takeWhile (\<lambda>c. c \<noteq> CHR '','') x_forwarded_for))
          else REMOTE_ADDR request
      | None \<Rightarrow> REMOTE_ADDR request)"

definition http_user_agent :: "request \<Rightarrow> string" where
  "http_user_agent request = (case HTTP_USER_AGENT request of Some s \<Rightarrow> s | None \<Rightarrow> [])"

definition skip_paths :: "string list" where
  "skip_paths = [''/static/'', ''/media/'', ''/health/'', ''/admin/jsi18n/'', ''/favicon.ico'']"

definition should_skip_session_management :: "request \<Rightarrow> bool" where
  "should_skip_session_management request = list_ex (startswith (path request)) skip_paths"

text \<open>
  \<open>UserSession.end_session\<close> on an instance: the two attributes are set on the object,
  then \<open>save(update_fields=['is_active', 'ended_at'])\<close> writes them to the row with the
  instance's primary key.  The result is the object, and the exception raised or the
  world after the write.
\<close>

definition end_session ::
  "site set \<Rightarrow> datetime \<Rightarrow> session_obj \<Rightarrow> world \<Rightarrow> session_obj \<times> (py_exn + world)" where
  "end_session faults now obj w =
     (let obj1 = (fst obj, (snd obj)\<lparr>is_active := False, ended_at := Some now\<rparr>) in
      if DbSaveEnd \<in> faults then (obj1, Inl (Fault DbSaveEnd))
      else if fst obj < length (sessions w)
      then (obj1,
            Inr (w\<lparr>sessions := (sessions w)
                   [fst obj := (sessions w ! fst obj)\<lparr>is_active := False,
                                                     ended_at := Some now\<rparr>]\<rparr>))
      else (obj1, Inl NoRowsUpdated))"

definition get_device_type :: "parsed_ua \<Rightarrow> string" where
  "get_device_type ua =
     (if is_mobile ua then ''mobile''
      else if is_tablet ua then ''tablet''
      else if is_pc ua then ''desktop''
      else ''unknown'')"

text \<open>
  \<open>_create_new_user_session\<close>.  \<open>UserSession.objects.create\<close> inserts a row: the insert
  fails with an \<open>IntegrityError\<close> when the session key or the address is \<open>None\<close>, when
  the address is the empty text (which the address field stores as \<open>NULL\<close>), and when a
  row with this session key exists, active or not (the column is \<open>unique\<close>).  The address
  is stored as received; that the field rewrites an IPv6 address to its canonical text is
  not modelled.
\<close>

definition create_new_user_session ::
  "(string \<Rightarrow> parsed_ua) \<Rightarrow> site set \<Rightarrow> datetime \<Rightarrow> request \<Rightarrow> world
     \<Rightarrow> session_obj option \<times> world" where
  "create_new_user_session parse faults now request w =
     (let failed = (\<lambda>e. (None, write_log ERROR ''Error creating new user session: '' (Some e) w)) in
      if UaParse \<in> faults then failed (Fault UaParse)
      else
        let user_agent_string = http_user_agent request;
            ua = parse user_agent_string
        in
        (case req_user request of
           AnonymousUser \<Rightarrow> failed AnonymousUserRejected
         | CustomUser uid email \<Rightarrow>
             if DbCreate \<in> faults then failed (Fault DbCreate)
             else
               (case (django_session_key request, get_client_ip request) of
                  (Some key, Some ip) \<Rightarrow>
                    if ip = [] \<or> list_ex (\<lambda>row. session_key row = key) (sessions w)
                    then failed IntegrityError
                    else
                      let row = \<lparr>user_id = uid, session_key = key, ip_address = ip,
                                 user_agent = user_agent_string,
                                 device_type = get_device_type ua,
                                 browser = browser_family ua,
                                 operating_system = os_family ua,
                                 started_at = now, last_activity = now, ended_at = None,
                                 is_active = True, page_views = 0, chat_interactions = 0\<rparr>;
                          w1 = w\<lparr>sessions := sessions w @ [row]\<rparr>
                      in (Some (length (sessions w), row),
                          write_log INFO (''New user session created: user='' @ email
                                      @ '', session_id='' @ key
                                      @ '', device='' @ device_type row) None w1)
                | _ \<Rightarrow> failed IntegrityError)))"

text \<open>
  \<open>filter(user=..., is_active=True, session_key=...).first()\<close>: the matching row with
  the least primary key.
\<close>

definition lookup_session :: "nat \<Rightarrow> string option \<Rightarrow> UserSession list \<Rightarrow> session_obj option" where
  "lookup_session uid key rows =
     (case filter (\<lambda>pk. user_id (rows ! pk) = uid \<and> is_active (rows ! pk)
                        \<and> Some (session_key (rows ! pk)) = key) [0 ..< length rows] of
        [] \<Rightarrow> None
      | pk # _ \<Rightarrow> Some (pk, rows ! pk))"

definition get_or_create_user_session ::
  "(string \<Rightarrow> parsed_ua) \<Rightarrow> site set \<Rightarrow> datetime \<Rightarrow> request \<Rightarrow> world
     \<Rightarrow> session_obj option \<times> world" where
  "get_or_create_user_session parse faults now request w =
     (let failed = (\<lambda>e. (None, write_log ERROR ''Error getting/creating user session: '' (Some e) w)) in
      case req_user request of
        AnonymousUser \<Rightarrow> failed AnonymousUserRejected
      | CustomUser uid email \<Rightarrow>
          if DbLookup \<in> faults then failed (Fault DbLookup)
          else
            (case lookup_session uid (django_session_key request) (sessions w) of
               Some (pk, row) \<Rightarrow>
                 if DbSaveLastActivity \<in> faults then failed (Fault DbSaveLastActivity)
                 else
                   (Some (pk, row\<lparr>last_activity := now\<rparr>),
                    w\<lparr>sessions := (sessions w)[pk := (sessions w ! pk)\<lparr>last_activity := now\<rparr>]\<rparr>)
             | None \<Rightarrow> create_new_user_session parse faults now request w))"

definition update_user_activity :: "site set \<Rightarrow> datetime \<Rightarrow> user \<Rightarrow> world \<Rightarrow> world" where
  "update_user_activity faults now u w =
     (case u of
        AnonymousUser \<Rightarrow> write_log ERROR ''Error updating user activity: '' (Some AnonymousUserRejected) w
      | CustomUser uid email \<Rightarrow>
          if UserSave \<in> faults
          then write_log ERROR ''Error updating user activity: '' (Some (Fault UserSave)) w
          else w\<lparr>user_last_activity := (user_last_activity w)(uid \<mapsto> now)\<rparr>)"

definition handle_authenticated_session ::
  "(string \<Rightarrow> parsed_ua) \<Rightarrow> site set \<Rightarrow> datetime \<Rightarrow> request \<Rightarrow> world \<Rightarrow> request \<times> world" where
  "handle_authenticated_session parse faults now request w =
     (let (us, w1) = get_or_create_user_session parse faults now request w;
          request1 = request\<lparr>user_session := Some us\<rparr>;
          w2 = update_user_activity faults now (req_user request1) w1
      in
      case (user_email (req_user request1), us) of
        (Some email, Some (pk, row)) \<Rightarrow>
          (request1,
           write_log INFO (''Authenticated session: user='' @ email
                       @ '', session_id='' @ session_key row
                       @ '', ip='' @ str_opt (get_client_ip request1)) None w2)
      | _ \<Rightarrow>
          (request1,
           write_log ERROR ''Error handling authenticated session: '' (Some AttributeError) w2))"

definition handle_anonymous_session ::
  "site set \<Rightarrow> datetime \<Rightarrow> request \<Rightarrow> world \<Rightarrow> world" where
  "handle_anonymous_session faults now request w =
     (let session_data = (get_client_ip request, http_user_agent request, now, path request) in
      if CacheSetAnonymous \<in> faults
      then write_log ERROR ''Error handling anonymous session: '' (Some (Fault CacheSetAnonymous)) w
      else w\<lparr>anonymous_sessions := anonymous_sessions w @ [session_data]\<rparr>)"

definition check_session_consistency :: "site set \<Rightarrow> request \<Rightarrow> world \<Rightarrow> bool \<times> world" where
  "check_session_consistency faults request w =
     (let failed = (\<lambda>e. (False, write_log ERROR ''Error checking session consistency: '' (Some e) w)) in
      case user_session request of
        Some (Some (pk, us)) \<Rightarrow>
          if ConsistencyBody \<in> faults then failed (Fault ConsistencyBody)
          else if Some (ip_address us) \<noteq> get_client_ip request
                  \<or> user_agent us \<noteq> http_user_agent request
          then
            (case user_email (req_user request) of
               None \<Rightarrow> failed AttributeError
             | Some email \<Rightarrow>
                 let w1 = (if Some (ip_address us) \<noteq> get_client_ip request
                           then write_log INFO (''IP address changed for user '' @ email
                                                  @ '': from '' @ ip_address us
                                                  @ '' to '' @ str_opt (get_client_ip request))
                                  None w
                           else w)
                 in if user_agent us \<noteq> http_user_agent request
                    then (False, write_log WARNING (''User agent changed for user '' @ email) None w1)
                    else (True, w1))
          else (True, w)
      | _ \<Rightarrow> (True, w))"

definition detect_suspicious_activity :: "site set \<Rightarrow> request \<Rightarrow> world \<Rightarrow> bool \<times> world" where
  "detect_suspicious_activity faults request w =
     (let failed = (\<lambda>e. (False, write_log ERROR ''Error detecting suspicious activity: '' (Some e) w));
          cache_key = (str_opt (get_client_ip request), user_pk (req_user request))
      in
      if CacheGetRate \<in> faults then failed (Fault CacheGetRate)
      else
        let request_count = (case request_rate w cache_key of Some n \<Rightarrow> n | None \<Rightarrow> 0) in
        if request_count > 100 then
          (case user_email (req_user request) of
             None \<Rightarrow> failed AttributeError
           | Some email \<Rightarrow>
               (True, write_log WARNING (''High request rate detected for user '' @ email) None w))
        else if CacheSetRate \<in> faults then failed (Fault CacheSetRate)
        else (False, w\<lparr>request_rate := (request_rate w)(cache_key \<mapsto> request_count + 1)\<rparr>))"

text \<open>
  \<open>_validate_session_security\<close>.  The statements of its own \<open>try\<close> block are the two
  calls, which catch their exceptions themselves, and log lines on the paths that return
  \<open>False\<close>; its handler returns \<open>False\<close> as well and is no separate branch of the model.
  An authenticated user is a \<open>CustomUser\<close>.
\<close>

definition validate_session_security :: "site set \<Rightarrow> request \<Rightarrow> world \<Rightarrow> bool \<times> world" where
  "validate_session_security faults request w =
     (case req_user request of
        AnonymousUser \<Rightarrow> (True, w)
      | CustomUser uid email \<Rightarrow>
          (case check_session_consistency faults request w of
             (False, w1) \<Rightarrow>
               (False, write_log WARNING (''Session consistency check failed for user '' @ email) None w1)
           | (True, w1) \<Rightarrow>
               (case detect_suspicious_activity faults request w1 of
                  (True, w2) \<Rightarrow>
                    (False, write_log WARNING (''Suspicious activity detected for user '' @ email) None w2)
                | (False, w2) \<Rightarrow> (True, w2))))"

text \<open>
  \<open>filter(user=..., is_active=True)\<close>: the primary keys of the user's active sessions;
  \<open>order_by('last_activity').first()\<close>: one with the least \<open>last_activity\<close> (of several
  with the same \<open>last_activity\<close>, the model takes the least primary key; the database
  may take any).
\<close>

definition active_sessions :: "nat \<Rightarrow> UserSession list \<Rightarrow> nat list" where
  "active_sessions uid rows =
     filter (\<lambda>pk. user_id (rows ! pk) = uid \<and> is_active (rows ! pk)) [0 ..< length rows]"

fun least_by_last_activity :: "UserSession list \<Rightarrow> nat \<Rightarrow> nat list \<Rightarrow> nat" where
  "least_by_last_activity rows best [] = best"
| "least_by_last_activity rows best (pk # pks) =
     least_by_last_activity rows
       (if last_activity (rows ! pk) < last_activity (rows ! best) then pk else best) pks"

definition oldest_session :: "nat \<Rightarrow> UserSession list \<Rightarrow> session_obj option" where
  "oldest_session uid rows =
     (case active_sessions uid rows of
        [] \<Rightarrow> None
      | pk # pks \<Rightarrow>
          (let best = least_by_last_activity rows pk pks in Some (best, rows ! best)))"

definition check_concurrent_sessions ::
  "int \<Rightarrow> site set \<Rightarrow> datetime \<Rightarrow> request \<Rightarrow> world \<Rightarrow> bool \<times> world" where
  "check_concurrent_sessions max_concurrent_sessions faults now request w =
     (let failed = (\<lambda>e. (True, write_log ERROR ''Error checking concurrent sessions: '' (Some e) w)) in
      case req_user request of
        AnonymousUser \<Rightarrow> failed AnonymousUserRejected
      | CustomUser uid email \<Rightarrow>
          if DbCount \<in> faults then failed (Fault DbCount)
          else
            let n_active = int (length (active_sessions uid (sessions w))) in
            if n_active \<ge> max_concurrent_sessions then
              (if DbOldest \<in> faults then failed (Fault DbOldest)
               else
                 (case oldest_session uid (sessions w) of
                    None \<Rightarrow> (True, w)
                  | Some obj \<Rightarrow>
                      (case snd (end_session faults now obj w) of
                         Inl e \<Rightarrow> failed e
                       | Inr w1 \<Rightarrow>
                           (True,
                            write_log INFO (''Ended oldest session for user '' @ email
                                        @ '' due to concurrent session limit'') None w1))))
            else (True, w))"

definition security_violation_response :: response where
  "security_violation_response =
     JsonResponse
       [(''error'', JStr ''Security violation detected''),
        (''message'',
           JStr (''Your session has been terminated due to security concerns. ''
                   @ ''Please log in again.'')),
        (''code'', JStr ''SECURITY_VIOLATION'')]
       403"

definition create_security_violation_response ::
  "site set \<Rightarrow> datetime \<Rightarrow> request \<Rightarrow> world \<Rightarrow> (py_exn + response) \<times> request \<times> world" where
  "create_security_violation_response faults now request w =
     (case user_email (req_user request) of
        None \<Rightarrow> (Inl AttributeError, request, w)
      | Some email \<Rightarrow>
          (let w1 = write_log WARNING (''Security violation detected for user '' @ email) None w in
           case user_session request of
             None \<Rightarrow> (Inr security_violation_response, request, w1)
           | Some None \<Rightarrow> (Inl AttributeError, request, w1)
           | Some (Some obj) \<Rightarrow>
               (case end_session faults now obj w1 of
                  (obj1, Inl e) \<Rightarrow> (Inl e, request\<lparr>user_session := Some (Some obj1)\<rparr>, w1)
                | (obj1, Inr w2) \<Rightarrow>
                    (Inr security_violation_response,
                     request\<lparr>user_session := Some (Some obj1)\<rparr>, w2))))"

definition create_concurrent_session_response :: response where
  "create_concurrent_session_response =
     JsonResponse
       [(''error'', JStr ''Too many active sessions''),
        (''message'', JStr ''You have too many active sessions. Please try again.''),
        (''code'', JStr ''CONCURRENT_SESSION_LIMIT'')]
       429"

text \<open>
  \<open>SessionManagementMiddleware.process_request\<close>.  \<open>max_concurrent_sessions\<close> is the
  setting \<open>MAX_CONCURRENT_SESSIONS\<close> (5 when unset), \<open>now\<close> what \<open>timezone.now()\<close> returns
  during this request, \<open>t\<close> what \<open>time.time()\<close> returns.  The result is the exception that
  leaves the method or the value it returns (\<open>None\<close>: the request goes on), the request
  object and the world.
\<close>

definition Session_process_request ::
  "(string \<Rightarrow> parsed_ua) \<Rightarrow> int \<Rightarrow> site set \<Rightarrow> datetime \<Rightarrow> real \<Rightarrow> request \<Rightarrow> world
     \<Rightarrow> (py_exn + response option) \<times> request \<times> world" where
  "Session_process_request parse max_concurrent_sessions faults now t request w =
     (if should_skip_session_management request then (Inr None, request, w)
      else
        let request1 = request\<lparr>session_start_time := Some t\<rparr>;
            (request2, w1) =
              (if is_authenticated (req_user request1)
               then handle_authenticated_session parse faults now request1 w
               else (request1, handle_anonymous_session faults now request1 w))
        in
        (case validate_session_security faults request2 w1 of
           (False, w2) \<Rightarrow>
             (case create_security_violation_response faults now request2 w2 of
                (Inl e, request3, w3) \<Rightarrow> (Inl e, request3, w3)
              | (Inr r, request3, w3) \<Rightarrow> (Inr (Some r), request3, w3))
         | (True, w2) \<Rightarrow>
             (case check_concurrent_sessions max_concurrent_sessions faults now request2 w2 of
                (False, w3) \<Rightarrow> (Inr (Some create_concurrent_session_response), request2, w3)
              | (True, w3) \<Rightarrow> (Inr None, request2, w3))))"

text \<open>\<open>_update_session_activity\<close>, called by \<open>process_response\<close>.\<close>

definition update_session_activity :: "site set \<Rightarrow> request \<Rightarrow> world \<Rightarrow> request \<times> world" where
  "update_session_activity faults request w =
     (let failed = (\<lambda>e. write_log ERROR ''Error updating session activity: '' (Some e) w) in
      case user_session request of
        Some (Some (pk, us)) \<Rightarrow>
          (let us1 = us\<lparr>page_views := page_views us + 1\<rparr>;
               us2 = (if contains ''/api/v1/chatbot/'' (path request)
                      then us1\<lparr>chat_interactions := chat_interactions us1 + 1\<rparr> else us1);
               request1 = request\<lparr>user_session := Some (Some (pk, us2))\<rparr>
           in
           if DbSaveCounters \<in> faults then (request1, failed (Fault DbSaveCounters))
           else if pk < length (sessions w)
           then (request1,
                 w\<lparr>sessions := (sessions w)
                      [pk := (sessions w ! pk)\<lparr>page_views := page_views us2,
                                               chat_interactions := chat_interactions us2\<rparr>]\<rparr>)
           else (request1, failed NoRowsUpdated))
      | _ \<Rightarrow> (request, failed AttributeError))"

text \<open>
  \<open>SessionManagementMiddleware.process_response\<close>.  \<open>t\<close> is what \<open>time.time()\<close> returns,
  \<open>show_ms d\<close> the text \<open>str(round(d * 1000, 2))\<close> of a duration \<open>d\<close>.  The result is the
  exception that leaves the method or the response it returns, the request object and
  the world.  The last statement reads \<open>request.user_session.session_key\<close> outside any
  \<open>try\<close>.
\<close>

definition set_header :: "string \<Rightarrow> string \<Rightarrow> response \<Rightarrow> response" where
  "set_header name v response = response\<lparr>headers := (headers response)(name \<mapsto> v)\<rparr>"

definition Session_process_response ::
  "site set \<Rightarrow> (real \<Rightarrow> string) \<Rightarrow> real \<Rightarrow> request \<Rightarrow> response \<Rightarrow> world
     \<Rightarrow> (py_exn + response) \<times> request \<times> world" where
  "Session_process_response faults show_ms t request response w =
     (case session_start_time request of
        None \<Rightarrow> (Inr response, request, w)
      | Some t0 \<Rightarrow>
          let duration = t - t0;
              (request1, w1) =
                (if is_authenticated (req_user request) \<and> user_session request \<noteq> None
                 then update_session_activity faults request w
                 else (request, w));
              response1 = set_header ''X-Session-Duration'' (show_ms duration @ ''ms'') response
          in
          (case user_session request1 of
             None \<Rightarrow> (Inr response1, request1, w1)
           | Some None \<Rightarrow> (Inl AttributeError, request1, w1)
           | Some (Some (pk, us)) \<Rightarrow>
               (Inr (set_header ''X-Session-ID'' (session_key us) response1), request1, w1)))"

text \<open>
  Readings used to state the properties.  \<open>consistent\<close>: the session attached to the
  request, if any, has the user agent of the request, and either its address is the
  client's or the user has an email to print in the log line.  \<open>rate_exceeded\<close>: the
  request counter of the client is above 100.
\<close>

definition consistent :: "request \<Rightarrow> bool" where
  "consistent request \<longleftrightarrow>
     (case user_session request of
        Some (Some (pk, us)) \<Rightarrow>
          user_agent us = http_user_agent request
          \<and> (Some (ip_address us) = get_client_ip request
               \<or> user_email (req_user request) \<noteq> None)
      | _ \<Rightarrow> True)"

definition rate_exceeded :: "request \<Rightarrow> world \<Rightarrow> bool" where
  "rate_exceeded request w \<longleftrightarrow>
     (case request_rate w (str_opt (get_client_ip request), user_pk (req_user request)) of
        Some n \<Rightarrow> n > 100
      | None \<Rightarrow> False)"

text \<open>The request and the world after the session has been resolved (lines 55 to 61).\<close>

definition resolved ::
  "(string \<Rightarrow> parsed_ua) \<Rightarrow> site set \<Rightarrow> datetime \<Rightarrow> real \<Rightarrow> request \<Rightarrow> world \<Rightarrow> request \<times> world" where
  "resolved parse faults now t request w =
     (let request1 = request\<lparr>session_start_time := Some t\<rparr> in
      if is_authenticated (req_user request1)
      then handle_authenticated_session parse faults now request1 w
      else (request1, handle_anonymous_session faults now request1 w))"

text \<open>
  Sample data for the scenarios of the specification: a user with one active session
  (stored fingerprint \<open>UA-A\<close>, stored address \<open>1.1.1.1\<close>), requests of that user, and a
  user-agent parser that reports a desktop browser.
\<close>

definition sample_session :: UserSession where
  "sample_session =
     \<lparr>user_id = 7, session_key = ''abc'', ip_address = ''1.1.1.1'', user_agent = ''UA-A'',
      device_type = ''desktop'', browser = ''Chrome'', operating_system = ''Windows'',
      started_at = 0, last_activity = 0, ended_at = None, is_active = True,
      page_views = 0, chat_interactions = 0\<rparr>"

definition sample_world :: world where
  "sample_world =
     \<lparr>sessions = [sample_session], user_last_activity = Map.empty,
      request_rate = Map.empty, anonymous_sessions = [], logs = []\<rparr>"

definition sample_request :: request where
  "sample_request =
     \<lparr>req_method = ''GET'', path = ''/api/v1/chatbot/conversations/'',
      CONTENT_LENGTH = None, CONTENT_TYPE = None, HTTP_USER_AGENT = Some ''UA-A'',
      HTTP_X_FORWARDED_FOR = None, REMOTE_ADDR = Some ''1.1.1.1'',
      req_user = CustomUser 7 ''user@example.com'', django_session_key = Some ''abc'',
      request_id = None, start_time = None,
      retry_count = 0, max_retries = 3, retry_delay = 1, backoff_factor = 2,
      session_start_time = None, user_session = None\<rparr>"

definition sample_parse :: "string \<Rightarrow> parsed_ua" where
  "sample_parse s =
     \<lparr>is_mobile = False, is_tablet = False, is_pc = True,
      browser_family = ''Chrome'', os_family = ''Windows''\<rparr>"

text \<open>
  The table after the sample session has been ended (by \<open>end_session\<close>, as the
  concurrent-session check and the security-violation response do), and a response of a
  view.
\<close>

definition ended_world :: world where
  "ended_world =
     sample_world\<lparr>sessions := [sample_session\<lparr>is_active := False, ended_at := Some 50\<rparr>]\<rparr>"

definition view_response :: response where
  "view_response = JsonResponse [(''status'', JStr ''ok'')] 200"

text \<open>Scenario E: six active sessions of one user, the second the least recently active.\<close>

definition six_sessions :: "UserSession list" where
  "six_sessions =
     [sample_session\<lparr>session_key := ''k0'', last_activity := 50\<rparr>,
      sample_session\<lparr>session_key := ''k1'', last_activity := 10\<rparr>,
      sample_session\<lparr>session_key := ''k2'', last_activity := 30\<rparr>,
      sample_session\<lparr>session_key := ''k3'', last_activity := 20\<rparr>,
      sample_session\<lparr>session_key := ''k4'', last_activity := 60\<rparr>,
      sample_session\<lparr>session_key := ''k5'', last_activity := 40\<rparr>]"

section \<open>ErrorHandlingMiddleware (elate\_chatbot/middleware.py)\<close>

text \<open>
  \<open>ErrorHandlingMiddleware.process_exception\<close>: the identifier \<open>str(uuid.uuid4())\<close>,
  \<open>settings.DEBUG\<close> and the lines of the traceback are arguments; the log line is not
  modelled.
\<close>

definition ErrorHandling_process_exception ::
  "bool \<Rightarrow> string list \<Rightarrow> string \<Rightarrow> exception \<Rightarrow> response" where
  "ErrorHandling_process_exception debug traceback_lines error_id exception =
     (if debug then
        JsonResponse
          [(''error'', JStr ''Internal Server Error''),
           (''error_id'', JStr error_id),
           (''message'', JStr (exc_str exception)),
           (''type'', JStr (exc_type_name exception)),
           (''traceback'', JList traceback_lines)]
          500
      else
        JsonResponse
          [(''error'', JStr ''Internal Server Error''),
           (''error_id'', JStr error_id),
           (''message'', JStr ''An unexpected error occurred. Please try again later.'')]
          500)"

text \<open>The number of ERROR lines in the log.\<close>

definition n_errors :: "world \<Rightarrow> nat" where
  "n_errors w = length (filter (\<lambda>entry. case entry of Log lv msg e \<Rightarrow> lv = ERROR) (logs w))"

section \<open>Properties of the circuit breaker\<close>

lemma call_frame:
  "call b now now' func w = (r, b', w') \<Longrightarrow>
     expected_exception b' = expected_exception b \<and> failure_threshold b' = failure_threshold b
     \<and> recovery_timeout b' = recovery_timeout b"
  by (auto simp: call_def admit_def on_success_def on_failure_def Let_def
           split: sum.splits if_splits option.splits prod.splits)

lemma call_will_open:
  assumes "will_open b (Suc n)" and "fails_expected b func"
    and "call b now now' func w = (r, b', w')"
  shows "will_open b' n"
proof -
  obtain e where e: "fst (func w) = Inl e" "expected_exception b e"
    using assms(2) unfolding fails_expected_def by blast
  then obtain w1 where fw: "func w = (Inl e, w1)" by (cases "func w") auto
  show ?thesis
    using assms(1,3) e(2) fw
    by (auto simp: will_open_def call_def admit_def on_failure_def Let_def
             split: if_splits option.splits)
qed

lemma run_calls_will_open:
  "will_open b (length cs) \<Longrightarrow> \<forall>c \<in> set cs. fails_expected b (snd (snd c))
     \<Longrightarrow> state (fst (run_calls b w cs)) = OPEN"
proof (induction cs arbitrary: b w)
  case Nil
  then show ?case by (simp add: will_open_def)
next
  case (Cons c cs)
  obtain now now' func where c: "c = (now, now', func)" by (cases c) auto
  obtain r b' w' where cl: "call b now now' func w = (r, b', w')"
    by (cases "call b now now' func w") auto
  have fe: "fails_expected b func" using Cons.prems(2) c by simp
  have op: "will_open b' (length cs)"
    using call_will_open[OF _ fe cl] Cons.prems(1) by simp
  have ee: "expected_exception b' = expected_exception b"
    using call_frame[OF cl] by simp
  have "\<forall>c \<in> set cs. fails_expected b' (snd (snd c))"
    using Cons.prems(2) ee by (simp add: fails_expected_def)
  from Cons.IH[OF op this] show ?case using c cl by simp
qed

lemma opens_after_threshold:
  assumes "state b = CLOSED" "0 \<le> failure_count b" "cs \<noteq> []"
    "failure_threshold b \<le> int (length cs)" "\<forall>c \<in> set cs. fails_expected b (snd (snd c))"
  shows "state (fst (run_calls b w cs)) = OPEN"
proof -
  have "1 \<le> length cs" using assms(3) by (cases cs) auto
  then have "will_open b (length cs)" using assms(1,2,4) by (simp add: will_open_def)
  then show ?thesis using assms(5) by (rule run_calls_will_open)
qed

lemma open_rejects:
  "state b = OPEN \<Longrightarrow> last_failure_time b = Some t0 \<Longrightarrow> \<not> now - t0 > recovery_timeout b
    \<Longrightarrow> call b now now' func w = (Inl CircuitOpenError, b, w)"
  by (simp add: call_def admit_def)

lemma open_elapsed:
  "state b = OPEN \<Longrightarrow> last_failure_time b = Some t0 \<Longrightarrow> now - t0 > recovery_timeout b
    \<Longrightarrow> admit now b = Inr (b\<lparr>state := HALF_OPEN\<rparr>)
      \<and> call b now now' func w = call (b\<lparr>state := HALF_OPEN\<rparr>) now now' func w
      \<and> snd (snd (call b now now' func w)) = snd (func w)"
  by (auto simp add: call_def admit_def split: prod.splits sum.splits)

lemma call_success:
  "call b now now' func w = (Inr v, b', w') \<Longrightarrow>
     state b' = CLOSED \<and> failure_count b' = 0 \<and> func w = (Inr v, w')"
  by (auto simp: call_def admit_def on_success_def
           split: sum.splits if_splits option.splits prod.splits)

text \<open>
  Claim C1, as the code has it.  The breaker counts only the failures that are instances
  of its \<open>expected_exception\<close>.  With that proviso: (1) from CLOSED with a non-negative
  counter, after at least one and at least \<open>failure_threshold\<close> consecutive calls whose
  operation raises a counted error, the state is OPEN; (2) a call on an OPEN breaker
  while \<open>now - last_failure_time\<close> has not exceeded \<open>recovery_timeout\<close> fails with
  CircuitOpenError, and neither the breaker nor the world changes, whatever the operation
  is: it is not invoked; (3) a call on an OPEN breaker after the timeout first sets the
  state to HALF\_OPEN, goes on as a call on that HALF\_OPEN breaker, and the world it
  leaves is the one a single run of the operation leaves; (4) a call that returns a
  result leaves the state CLOSED and \<open>failure_count\<close> 0, and the result is that of one
  run of the operation.
\<close>

theorem circuit_breaker_counted_failures:
  "(state b = CLOSED \<and> 0 \<le> failure_count b \<and> cs \<noteq> []
      \<and> failure_threshold b \<le> int (length cs)
      \<and> (\<forall>c \<in> set cs. fails_expected b (snd (snd c)))
     \<longrightarrow> state (fst (run_calls b w cs)) = OPEN)
   \<and> (state bo = OPEN \<and> last_failure_time bo = Some t0
        \<and> \<not> now - t0 > recovery_timeout bo
     \<longrightarrow> call bo now now' func wo = (Inl CircuitOpenError, bo, wo))
   \<and> (state bh = OPEN \<and> last_failure_time bh = Some t1
        \<and> now1 - t1 > recovery_timeout bh
     \<longrightarrow> admit now1 bh = Inr (bh\<lparr>state := HALF_OPEN\<rparr>)
        \<and> call bh now1 now1' func1 wh = call (bh\<lparr>state := HALF_OPEN\<rparr>) now1 now1' func1 wh
        \<and> snd (snd (call bh now1 now1' func1 wh)) = snd (func1 wh))
   \<and> (call bs now2 now2' func2 ws = (Inr v, bs', ws')
     \<longrightarrow> state bs' = CLOSED \<and> failure_count bs' = 0 \<and> func2 ws = (Inr v, ws'))"
  using opens_after_threshold[of b cs w] open_rejects[of bo t0 now now' func wo]
    open_elapsed[of bh t1 now1 now1' func1 wh] call_success[of bs now2 now2' func2 ws v bs' ws']
  by blast

text \<open>
  Scenario A of the specification as the witness: threshold 3, three failing calls open
  the breaker; a fourth call 8 seconds after the last failure is rejected and the
  operation counter of the world stays at 3; a call 61 seconds after the last failure
  runs the operation once (the counter goes from 3 to 4) and closes the breaker.
\<close>

theorem circuit_breaker_counted_failures_witness:
  "state (fst (run_calls (init_breaker 3 60 (\<lambda>e::string. True)) (0::nat)
       [(0, 0, \<lambda>n. (Inl ''Test failure'' :: string + string, Suc n)),
        (1, 1, \<lambda>n. (Inl ''Test failure'', Suc n)),
        (2, 2, \<lambda>n. (Inl ''Test failure'', Suc n))])) = OPEN
   \<and> call \<lparr>failure_threshold = 3, recovery_timeout = 60, expected_exception = (\<lambda>e::string. True),
            failure_count = 3, last_failure_time = Some 2, state = OPEN\<rparr>
        10 10 (\<lambda>n. (Inl ''Test failure'' :: string + string, Suc n)) (3::nat)
      = (Inl CircuitOpenError,
         \<lparr>failure_threshold = 3, recovery_timeout = 60, expected_exception = (\<lambda>e::string. True),
            failure_count = 3, last_failure_time = Some 2, state = OPEN\<rparr>, 3)
   \<and> snd (snd (call \<lparr>failure_threshold = 3, recovery_timeout = 60,
            expected_exception = (\<lambda>e::string. True),
            failure_count = 3, last_failure_time = Some 2, state = OPEN\<rparr>
        63 63 (\<lambda>n. (Inr ''success'' :: string + string, Suc n)) (3::nat))) = 4
   \<and> state (fst (snd (call \<lparr>failure_threshold = 3, recovery_timeout = 60,
            expected_exception = (\<lambda>e::string. True),
            failure_count = 3, last_failure_time = Some 2, state = OPEN\<rparr>
        63 63 (\<lambda>n. (Inr ''success'' :: string + string, Suc n)) (3::nat)))) = CLOSED
   \<and> failure_count (fst (snd (call \<lparr>failure_threshold = 3, recovery_timeout = 60,
            expected_exception = (\<lambda>e::string. True),
            failure_count = 3, last_failure_time = Some 2, state = OPEN\<rparr>
        63 63 (\<lambda>n. (Inr ''success'' :: string + string, Suc n)) (3::nat)))) = 0"
proof -
  let ?ee = "\<lambda>e::string. True"
  let ?fail = "\<lambda>n::nat. (Inl ''Test failure'' :: string + string, Suc n)"
  let ?ok = "\<lambda>n::nat. (Inr ''success'' :: string + string, Suc n)"
  let ?b = "init_breaker 3 60 ?ee"
  let ?bo = "\<lparr>failure_threshold = 3, recovery_timeout = 60, expected_exception = ?ee,
            failure_count = 3, last_failure_time = Some 2, state = OPEN\<rparr>"
  let ?cs = "[(0, 0, ?fail), (1, 1, ?fail), (2, 2, ?fail)]"
  obtain r b' w' where c: "call ?bo 63 63 ?ok (3::nat) = (r, b', w')"
    by (cases "call ?bo 63 63 ?ok (3::nat)") auto
  have r: "r = Inr ''success''"
    using c by (simp add: call_def admit_def)
  note t = circuit_breaker_counted_failures[where b = ?b and cs = ?cs and w = "0::nat"
      and bo = ?bo and ?t0.0 = 2 and now = 10 and now' = 10 and func = ?fail and wo = "3::nat"
      and bh = ?bo and ?t1.0 = 2 and ?now1.0 = 63 and now1' = 63 and ?func1.0 = ?ok
      and wh = "3::nat" and bs = ?bo and ?now2.0 = 63 and now2' = 63 and ?func2.0 = ?ok
      and ws = "3::nat" and v = "''success''" and bs' = b' and ws' = w']
  have h1: "state ?b = CLOSED \<and> 0 \<le> failure_count ?b \<and> ?cs \<noteq> []
      \<and> failure_threshold ?b \<le> int (length ?cs)
      \<and> (\<forall>c \<in> set ?cs. fails_expected ?b (snd (snd c)))"
    by (simp add: init_breaker_def fails_expected_def)
  have h2: "state ?bo = OPEN \<and> last_failure_time ?bo = Some 2 \<and> \<not> 10 - 2 > recovery_timeout ?bo"
    by simp
  have h3: "state ?bo = OPEN \<and> last_failure_time ?bo = Some 2 \<and> 63 - 2 > recovery_timeout ?bo"
    by simp
  from t h1 have p1: "state (fst (run_calls ?b (0::nat) ?cs)) = OPEN" by blast
  from t h2 have p2: "call ?bo 10 10 ?fail (3::nat) = (Inl CircuitOpenError, ?bo, 3)" by blast
  from t h3 have "snd (snd (call ?bo 63 63 ?ok (3::nat))) = snd (?ok 3)" by blast
  then have p3: "snd (snd (call ?bo 63 63 ?ok (3::nat))) = 4" by simp
  from t c r have p4: "state b' = CLOSED \<and> failure_count b' = 0" by blast
  from p1 p2 p3 p4 c show ?thesis by simp
qed

text \<open>
  The claim as stated speaks of every failing call.  A breaker made with
  \<open>failure_threshold = 1\<close> and \<open>expected_exception = ValueError\<close> stays CLOSED after a call
  whose operation raises a \<open>KeyError\<close>: the \<open>except\<close> clause of line 64 does not catch it.
\<close>

theorem circuit_breaker_uncounted_failure:
  "always_fails (\<lambda>n::nat. (Inl ''KeyError'' :: string + unit, Suc n))
   \<and> state (fst (run_calls (init_breaker 1 60 (\<lambda>e. e = ''ValueError'')) (0::nat)
        [(0, 0, \<lambda>n. (Inl ''KeyError'' :: string + unit, Suc n))])) = CLOSED"
  by (simp add: always_fails_def init_breaker_def call_def admit_def)

section \<open>Properties of the retry decorator\<close>

lemma retry_loop_upt:
  assumes "retry_loop sm nm mr d bf ex f [k ..< n] lst w = (r, w', tr)" and "int n = mr + 1"
  shows "length (calls_of tr) \<le> n - k
       \<and> calls_and_sleeps tr = schedule d bf k (calls_of tr)
       \<and> (calls_of tr = [] \<longleftrightarrow> k \<ge> n)
       \<and> (nm \<noteq> None \<and> (\<forall>i. k \<le> i \<and> int i < mr \<longrightarrow> time_sleep sm (d * bf ^ i) = None)
            \<longrightarrow> r = (if calls_of tr = []
                     then (case lst of None \<Rightarrow> Inl RaisedNone | Some e \<Rightarrow> Inl (Reraised e))
                     else map_sum Reraised id (last (calls_of tr))))"
  using assms
proof (induction "n - k" arbitrary: k lst w r w' tr)
  case 0
  then show ?case by auto
next
  case (Suc m)
  then have kn: "k < n" by simp
  then have upt: "[k ..< n] = k # [Suc k ..< n]" by (simp add: upt_conv_Cons)
  show ?case
  proof (cases "f w")
    case (Pair out w1)
    show ?thesis
    proof (cases out)
      case (Inr v)
      with Pair Suc.prems(1) upt kn show ?thesis by auto
    next
      case (Inl e)
      show ?thesis
      proof (cases "ex e")
        case False
        with Inl Pair Suc.prems(1) upt kn show ?thesis by auto
      next
        case True
        obtain r2 w2 tr2
          where rec: "retry_loop sm nm mr d bf ex f [Suc k ..< n] (Some e) w1 = (r2, w2, tr2)"
          by (cases "retry_loop sm nm mr d bf ex f [Suc k ..< n] (Some e) w1") auto
        have m: "m = n - Suc k" using Suc.hyps(2) by simp
        note IH = Suc.hyps(1)[OF m rec Suc.prems(2)]
        show ?thesis
        proof (cases nm)
          case None
          then have "tr = [Call (Inl e)]"
            using Suc.prems(1) upt Pair Inl True by (auto split: if_splits)
          then show ?thesis using None kn by simp
        next
          case (Some name)
          show ?thesis
          proof (cases "int k < mr")
            case lt: True
            show ?thesis
            proof (cases "time_sleep sm (d * bf ^ k)")
              case sl: (Some err)
              then have "tr = [Call (Inl e), LogWarning (k + 1) name e (d * bf ^ k)]"
                using Suc.prems(1) upt Pair Inl True Some lt by (auto simp: Let_def)
              then show ?thesis using sl lt kn by auto
            next
              case sl: None
              have "Suc k < n" using lt Suc.prems(2) by auto
              then have ne: "calls_of tr2 \<noteq> []" using IH by simp
              then obtain c cs where ccs: "calls_of tr2 = c # cs" by (cases "calls_of tr2") auto
              have tr: "tr = Call (Inl e) # LogWarning (k + 1) name e (d * bf ^ k)
                               # Sleep (d * bf ^ k) # tr2"
                and rr: "r = r2"
                using Suc.prems(1) upt Pair Inl True Some lt sl rec by (auto simp: Let_def)
              have l2: "length (calls_of tr2) \<le> n - Suc k" using IH by blast
              have 1: "length (calls_of tr) \<le> n - k" using tr l2 kn by simp
              have 2: "calls_and_sleeps tr = schedule d bf k (calls_of tr)"
                using tr IH ccs by simp
              have 3: "nm \<noteq> None \<and> (\<forall>i. k \<le> i \<and> int i < mr \<longrightarrow> time_sleep sm (d * bf ^ i) = None)
                         \<longrightarrow> r = map_sum Reraised id (last (calls_of tr))"
                using tr IH ccs rr by simp
              show ?thesis using 1 2 3 tr kn by simp
            qed
          next
            case ge: False
            then have "Suc k = n" using Suc.prems(2) kn by auto
            then have e: "calls_of tr2 = []" using IH by simp
            have tr: "tr = Call (Inl e) # LogError (mr + 1) name e # tr2"
              and rr: "r = r2"
              using Suc.prems(1) upt Pair Inl True Some ge rec by auto
            have r2: "r2 = Inl (Reraised e)"
              using rec \<open>Suc k = n\<close> by simp
            have c2: "calls_and_sleeps tr2 = []" using IH e by simp
            show ?thesis using tr rr e r2 c2 kn by simp
          qed
        qed
      qed
    qed
  qed
qed

lemma sleeps_of_calls_and_sleeps: "sleeps_of (calls_and_sleeps tr) = sleeps_of tr"
  by (induction tr rule: calls_and_sleeps.induct) auto

lemma sleeps_of_schedule:
  "sleeps_of (schedule d bf k cs) = map (\<lambda>i. d * bf ^ i) [k ..< k + (length cs - 1)]"
proof (induction d bf k cs rule: schedule.induct)
  case (3 d bf i c c' cs)
  have lt: "i < i + (length (c # c' # cs) - 1)" by simp
  have eq: "Suc i + (length (c' # cs) - 1) = i + (length (c # c' # cs) - 1)" by simp
  have "[i ..< i + (length (c # c' # cs) - 1)] = i # [Suc i ..< Suc i + (length (c' # cs) - 1)]"
    unfolding eq by (rule upt_conv_Cons[OF lt])
  then show ?case using 3 by simp
qed auto

lemma time_sleep_accepts:
  "0 \<le> secs \<Longrightarrow> secs \<le> sleep_max \<Longrightarrow> time_sleep sleep_max secs = None"
  by (simp add: time_sleep_def)


text \<open>
  Claim C6.  For a policy with \<open>max_retries \<ge> 0\<close> (the variable \<open>retries\<close>): the function is
  invoked at most \<open>max_retries + 1\<close> times and at least once; invocations and sleeps alternate as in
  \<open>schedule\<close>, so that the sleep before the \<open>i\<close>-th retry (the invocation number
  \<open>i + 1\<close>) is \<open>delay * backoff_factor ^ (i - 1)\<close>.  When moreover the policy's delay and
  backoff factor are not negative, its delays (\<open>delay * backoff_factor ^ i\<close> for
  \<open>i < max_retries\<close>) are durations that \<open>time.sleep\<close> takes, and the function has a name
  to print in the log lines, what the wrapper returns or raises
  is the outcome of its last invocation: when every attempt failed, the error of the
  last attempt is raised.
\<close>

theorem retry_on_failure_bounded:
  assumes "0 \<le> retries"
    and "retry_on_failure sleep_max func_name retries delay factor exceptions func w = (r, w', tr)"
  shows "int (length (calls_of tr)) \<le> retries + 1
       \<and> calls_and_sleeps tr = schedule delay factor 0 (calls_of tr)
       \<and> sleeps_of tr = map (\<lambda>i. delay * factor ^ i) [0 ..< length (calls_of tr) - 1]
       \<and> (\<forall>i. 1 \<le> i \<and> i < length (calls_of tr)
             \<longrightarrow> sleeps_of tr ! (i - 1) = delay * factor ^ (i - 1))
       \<and> calls_of tr \<noteq> []
       \<and> (func_name \<noteq> None \<and> 0 \<le> delay \<and> 0 \<le> factor
            \<and> list_all (\<lambda>i. delay * factor ^ i \<le> sleep_max) [0 ..< nat retries]
          \<longrightarrow> r = map_sum Reraised id (last (calls_of tr)))"
proof -
  let ?n = "nat (retries + 1)"
  have n: "int ?n = retries + 1" using assms(1) by simp
  have l: "retry_loop sleep_max func_name retries delay factor exceptions func [0 ..< ?n] None w
             = (r, w', tr)"
    using assms(2) by (simp add: retry_on_failure_def)
  note L = retry_loop_upt[OF l n]
  have ne: "calls_of tr \<noteq> []" using L assms(1) by simp
  have 1: "int (length (calls_of tr)) \<le> retries + 1" using L n by linarith
  have 2: "calls_and_sleeps tr = schedule delay factor 0 (calls_of tr)" using L by simp
  have 3: "sleeps_of tr = map (\<lambda>i. delay * factor ^ i) [0 ..< length (calls_of tr) - 1]"
    using sleeps_of_schedule[of delay factor 0 "calls_of tr"] 2
      sleeps_of_calls_and_sleeps[of tr] by simp
  have 4: "\<forall>i. 1 \<le> i \<and> i < length (calls_of tr)
             \<longrightarrow> sleeps_of tr ! (i - 1) = delay * factor ^ (i - 1)"
    using 3 by auto
  have 5: "r = map_sum Reraised id (last (calls_of tr))"
    if dom: "func_name \<noteq> None \<and> 0 \<le> delay \<and> 0 \<le> factor
             \<and> list_all (\<lambda>i. delay * factor ^ i \<le> sleep_max) [0 ..< nat retries]"
  proof -
    have "time_sleep sleep_max (delay * factor ^ i) = None" if "int i < retries" for i
    proof (rule time_sleep_accepts)
      show "0 \<le> delay * factor ^ i" using dom by simp
      have "i \<in> set [0 ..< nat retries]" using that by simp
      then show "delay * factor ^ i \<le> sleep_max" using dom by (simp add: list_all_iff)
    qed
    then show ?thesis using L ne dom by simp
  qed
  show ?thesis using 1 2 3 4 5 ne by blast
qed

text \<open>
  The run of the repository's test of exhausted retries: \<open>max_retries = 2\<close>,
  \<open>delay = 0.1\<close>, a function that always raises; \<open>sleep_max\<close> for a clock that counts
  nanoseconds in 64 bits.
\<close>

theorem retry_on_failure_bounded_witness:
  "(0::int) \<le> 2
   \<and> Some ''always_failing_func'' \<noteq> None \<and> (0::real) \<le> 1/10 \<and> (0::real) \<le> 2
   \<and> list_all (\<lambda>i. 1/10 * 2 ^ i \<le> (9223372036::real)) [0 ..< nat 2]
   \<and> retry_on_failure 9223372036 (Some ''always_failing_func'') 2 (1/10) 2 (\<lambda>e::string. True)
         (\<lambda>n::nat. (Inl ''Persistent failure'' :: string + string, Suc n)) 0
     = (Inl (Reraised ''Persistent failure''), 3,
        [Call (Inl ''Persistent failure''),
         LogWarning 1 ''always_failing_func'' ''Persistent failure'' (1/10), Sleep (1/10),
         Call (Inl ''Persistent failure''),
         LogWarning 2 ''always_failing_func'' ''Persistent failure'' (1/5), Sleep (1/5),
         Call (Inl ''Persistent failure''),
         LogError 3 ''always_failing_func'' ''Persistent failure''])
   \<and> sleeps_of (snd (snd (retry_on_failure 9223372036 (Some ''always_failing_func'') 2 (1/10) 2
         (\<lambda>e::string. True)
         (\<lambda>n::nat. (Inl ''Persistent failure'' :: string + string, Suc n)) 0)))
       = [1/10 * 2 ^ 0, 1/10 * 2 ^ 1]"
proof -
  let ?f = "\<lambda>n::nat. (Inl ''Persistent failure'' :: string + string, Suc n)"
  let ?tr = "[Call (Inl ''Persistent failure''),
         LogWarning 1 ''always_failing_func'' ''Persistent failure'' (1/10), Sleep (1/10),
         Call (Inl ''Persistent failure''),
         LogWarning 2 ''always_failing_func'' ''Persistent failure'' (1/5), Sleep (1/5),
         Call (Inl ''Persistent failure''),
         LogError 3 ''always_failing_func'' ''Persistent failure''] :: (string, string) retry_event list"
  have h: "(0::int) \<le> 2" by simp
  have d: "Some ''always_failing_func'' \<noteq> None \<and> (0::real) \<le> 1/10 \<and> (0::real) \<le> 2" by simp
  have b: "list_all (\<lambda>i. 1/10 * 2 ^ i \<le> (9223372036::real)) [0 ..< nat 2]"
    by (simp add: upt_conv_Cons)
  have e: "retry_on_failure 9223372036 (Some ''always_failing_func'') 2 (1/10) 2
             (\<lambda>e::string. True) ?f 0
      = (Inl (Reraised ''Persistent failure''), 3, ?tr)"
    by (simp add: retry_on_failure_def upt_conv_Cons time_sleep_def Let_def)
  from retry_on_failure_bounded[OF h e] d b
  have s: "sleeps_of ?tr = map (\<lambda>i. 1/10 * 2 ^ i) [0 ..< length (calls_of ?tr) - 1]"
    and r: "(Inl (Reraised ''Persistent failure'') :: string retry_error + string)
              = map_sum Reraised id (last (calls_of ?tr))"
    by blast+
  have "[0 ..< length (calls_of ?tr) - 1] = [0, 1]" by (simp add: upt_conv_Cons)
  with s have "sleeps_of ?tr = [1/10 * 2 ^ 0, 1/10 * 2 ^ 1]" by simp
  with h d b e show ?thesis by simp
qed

section \<open>Properties of RetryMiddleware\<close>

text \<open>
  Claim C10.  For every exception and every request whose \<open>retry_delay\<close> and
  \<open>backoff_factor\<close> (the settings that \<open>process_request\<close> copies to it) are not negative
  and whose backoff delay is a duration that \<open>time.sleep\<close> takes,
  \<open>RetryMiddleware.process_exception\<close> returns \<open>None\<close>.  The request it
  leaves differs from the one it got in \<open>retry_count\<close> only, incremented when
  \<open>_should_retry\<close> holds.  Its effects are: nothing when \<open>_should_retry\<close> fails; the log
  line and the sleep of \<open>retry_delay * backoff_factor ^ (retry_count - 1)\<close> (with the
  incremented count) when \<open>_should_retry\<close> holds and the incremented count is at most
  \<open>max_retries\<close>; the log line "Max retries exceeded" otherwise.
\<close>

theorem retry_middleware_returns_none:
  assumes "0 \<le> retry_delay request" and "0 \<le> backoff_factor request"
    and "retry_delay request * backoff_factor request ^ retry_count request \<le> sleep_max"
  shows "fst (RetryMiddleware_process_exception sleep_max request exception) = Inr None
   \<and> fst (snd (RetryMiddleware_process_exception sleep_max request exception))
       = (if should_retry request exception
          then request\<lparr>retry_count := retry_count request + 1\<rparr> else request)
   \<and> snd (snd (RetryMiddleware_process_exception sleep_max request exception))
       = (if should_retry request exception
          then (if int (retry_count request) + 1 \<le> max_retries request
                then [LoggedRetrying (path request) (retry_count request + 1) (max_retries request)
                        (retry_delay request * backoff_factor request ^ retry_count request),
                      Slept (retry_delay request * backoff_factor request ^ retry_count request)]
                else [LoggedMaxRetriesExceeded (path request)])
          else [])"
proof -
  have "0 \<le> retry_delay request * backoff_factor request ^ retry_count request"
    using assms(1,2) by simp
  then have "time_sleep sleep_max
               (retry_delay request * backoff_factor request ^ retry_count request) = None"
    using assms(3) by (rule time_sleep_accepts)
  then show ?thesis
    by (simp add: RetryMiddleware_process_exception_def Let_def)
qed

text \<open>
  Scenario C: the first timeout of a request to the OpenAI endpoint, after
  \<open>process_request\<close> with the default settings (\<open>MAX_RETRIES = 3\<close>, \<open>RETRY_DELAY = 1\<close>,
  \<open>BACKOFF_FACTOR = 2\<close>) and with a clock that counts nanoseconds in 64 bits.
\<close>

theorem retry_middleware_returns_none_witness:
  "0 \<le> retry_delay (RetryMiddleware_process_request 3 1 2 openai_request)
   \<and> 0 \<le> backoff_factor (RetryMiddleware_process_request 3 1 2 openai_request)
   \<and> retry_delay (RetryMiddleware_process_request 3 1 2 openai_request)
         * backoff_factor (RetryMiddleware_process_request 3 1 2 openai_request)
             ^ retry_count (RetryMiddleware_process_request 3 1 2 openai_request)
       \<le> 9223372036
   \<and> RetryMiddleware_process_exception 9223372036
         (RetryMiddleware_process_request 3 1 2 openai_request) openai_timeout
     = (Inr None,
        openai_request\<lparr>retry_count := 1, max_retries := 3, retry_delay := 1,
                         backoff_factor := 2\<rparr>,
        [LoggedRetrying ''/api/v1/chatbot/openai/'' 1 3 1, Slept 1])"
proof -
  let ?rq = "RetryMiddleware_process_request 3 1 2 openai_request"
  have s: "should_retry ?rq openai_timeout"
    by (simp add: should_retry_def RetryMiddleware_process_request_def openai_request_def
          openai_timeout_def isinstance_def)
  have f: "retry_count ?rq = 0 \<and> max_retries ?rq = 3
      \<and> retry_delay ?rq = 1 \<and> backoff_factor ?rq = 2
      \<and> path ?rq = ''/api/v1/chatbot/openai/''"
    by (simp add: RetryMiddleware_process_request_def openai_request_def)
  have h1: "0 \<le> retry_delay ?rq" and h2: "0 \<le> backoff_factor ?rq"
    and h3: "retry_delay ?rq * backoff_factor ?rq ^ retry_count ?rq \<le> 9223372036"
    using f by simp_all
  have u: "?rq\<lparr>retry_count := retry_count ?rq + 1\<rparr>
             = openai_request\<lparr>retry_count := 1, max_retries := 3, retry_delay := 1,
                                backoff_factor := 2\<rparr>"
    by (simp add: RetryMiddleware_process_request_def)
  from retry_middleware_returns_none[OF h1 h2 h3, of openai_timeout] s f u
  have "RetryMiddleware_process_exception 9223372036 ?rq openai_timeout
     = (Inr None,
        openai_request\<lparr>retry_count := 1, max_retries := 3, retry_delay := 1,
                         backoff_factor := 2\<rparr>,
        [LoggedRetrying ''/api/v1/chatbot/openai/'' 1 3 1, Slept 1])"
    by (simp add: prod_eq_iff)
  with h1 h2 h3 show ?thesis by simp
qed

section \<open>Properties of EdgeCaseHandlingMiddleware\<close>

lemma sn: "get_service_name_from_request openai_request = Some ''openai''"
  by (simp add: get_service_name_from_request_def openai_request_def lower_def lower_char_def)

lemma init_all_closed: "all_closed init_edge_middleware"
  by (simp add: all_closed_def init_edge_middleware_def)

lemma get_circuit_breaker_closed:
  "all_closed mw \<Longrightarrow> get_circuit_breaker mw name = (cb, mw1) \<Longrightarrow> state cb = CLOSED \<and> all_closed mw1"
  by (auto simp: all_closed_def get_circuit_breaker_def init_breaker_def Let_def
           split: option.splits if_splits)

lemma handle_external_api_error_closed:
  assumes "all_closed mw"
  shows "fst (handle_external_api_error mw request exception error_id)
           = external_error_response exception error_id
       \<and> all_closed (snd (handle_external_api_error mw request exception error_id))"
proof (cases "get_service_name_from_request request")
  case None
  then show ?thesis using assms by (simp add: handle_external_api_error_def)
next
  case (Some name)
  obtain cb mw1 where g: "get_circuit_breaker mw name = (cb, mw1)"
    by (cases "get_circuit_breaker mw name") auto
  from get_circuit_breaker_closed[OF assms g] Some g show ?thesis
    by (simp add: handle_external_api_error_def)
qed

lemma process_exception_all_closed:
  "all_closed mw \<Longrightarrow>
     all_closed (snd (EdgeCase_process_exception mw debug tb error_id request exception))"
  using handle_external_api_error_closed[of mw request exception error_id]
  by (auto simp: EdgeCase_process_exception_def split: prod.splits)

lemma request_exception_is_502:
  assumes "all_closed mw" and "isinstance exception RequestException"
    and "\<not> isinstance exception DatabaseError" "\<not> isinstance exception ValidationError"
    and "\<not> isinstance exception PermissionDenied" "\<not> isinstance exception Http404"
  shows "fst (EdgeCase_process_exception mw debug tb error_id request exception)
           = Some (external_error_response exception error_id)"
  using handle_external_api_error_closed[OF assms(1), of request exception error_id] assms(2-)
  by (auto simp: EdgeCase_process_exception_def split: prod.splits)

lemma timeouts_never_503:
  "all_closed mw \<Longrightarrow> \<forall>x \<in> set xs. exc_class (snd (snd x)) = Timeout \<Longrightarrow>
     fst (process_exceptions mw debug tb xs)
       = map (\<lambda>x. Some (external_error_response (snd (snd x)) (fst x))) xs"
proof (induction xs arbitrary: mw)
  case Nil
  then show ?case by simp
next
  case (Cons x xs)
  obtain error_id request exception where x: "x = (error_id, request, exception)"
    by (cases x) auto
  have c: "exc_class exception = Timeout" using Cons.prems(2) x by simp
  obtain r mw1 where p: "EdgeCase_process_exception mw debug tb error_id request exception = (r, mw1)"
    by (cases "EdgeCase_process_exception mw debug tb error_id request exception") auto
  have r: "r = Some (external_error_response exception error_id)"
    using request_exception_is_502[OF Cons.prems(1), of exception debug tb error_id request] c p
    by (simp add: isinstance_def)
  have "all_closed mw1" using process_exception_all_closed[OF Cons.prems(1), of debug tb error_id request exception] p by simp
  from Cons.IH[OF this] Cons.prems(2)
  have "fst (process_exceptions mw1 debug tb xs)
       = map (\<lambda>x. Some (external_error_response (snd (snd x)) (fst x))) xs" by simp
  then show ?case using x p r by (auto split: prod.splits)
qed

text \<open>
  Claim C2 at the input of Scenario C.  Nothing in the middleware calls
  \<open>CircuitBreaker.call\<close> or \<open>_on_failure\<close>: \<open>_get_circuit_breaker\<close> creates a CLOSED
  breaker and \<open>_handle_external_api_error\<close> only reads its state.  Six \<open>Timeout\<close>
  exceptions in a row on the path \<open>/api/v1/chatbot/openai/\<close> (service name \<open>openai\<close>)
  are therefore all answered with 502 and \<open>EXTERNAL_SERVICE_TIMEOUT\<close>, the sixth
  included.
\<close>

theorem sixth_openai_timeout_is_502:
  "map (map_option (\<lambda>r. (status r, map_of (body r) ''code'')))
     (fst (process_exceptions init_edge_middleware False []
        [(''e1'', openai_request, openai_timeout), (''e2'', openai_request, openai_timeout),
         (''e3'', openai_request, openai_timeout), (''e4'', openai_request, openai_timeout),
         (''e5'', openai_request, openai_timeout), (''e6'', openai_request, openai_timeout)]))
   = [Some (502, Some (JStr ''EXTERNAL_SERVICE_TIMEOUT'')),
      Some (502, Some (JStr ''EXTERNAL_SERVICE_TIMEOUT'')),
      Some (502, Some (JStr ''EXTERNAL_SERVICE_TIMEOUT'')),
      Some (502, Some (JStr ''EXTERNAL_SERVICE_TIMEOUT'')),
      Some (502, Some (JStr ''EXTERNAL_SERVICE_TIMEOUT'')),
      Some (502, Some (JStr ''EXTERNAL_SERVICE_TIMEOUT''))]
   \<and> get_service_name_from_request openai_request = Some ''openai''"
proof -
  let ?xs = "[(''e1'', openai_request, openai_timeout), (''e2'', openai_request, openai_timeout),
         (''e3'', openai_request, openai_timeout), (''e4'', openai_request, openai_timeout),
         (''e5'', openai_request, openai_timeout), (''e6'', openai_request, openai_timeout)]"
  have "\<forall>x \<in> set ?xs. exc_class (snd (snd x)) = Timeout" by (simp add: openai_timeout_def)
  from timeouts_never_503[OF init_all_closed this, of False "[]"]
  show ?thesis
    by (simp add: external_error_response_def isinstance_def openai_timeout_def JsonResponse_def sn)
qed

section \<open>Properties of the session middleware\<close>

lemma write_log_frame [simp]:
  "sessions (write_log lv msg e w) = sessions w"
  "request_rate (write_log lv msg e w) = request_rate w"
  "user_last_activity (write_log lv msg e w) = user_last_activity w"
  "anonymous_sessions (write_log lv msg e w) = anonymous_sessions w"
  by (simp_all add: write_log_def)

lemma check_session_consistency_result:
  "fst (check_session_consistency faults request w)
     = (consistent request
        \<and> (ConsistencyBody \<in> faults \<longrightarrow> (\<forall>obj. user_session request \<noteq> Some (Some obj))))"
  by (auto simp: check_session_consistency_def consistent_def Let_def
           split: option.splits prod.splits)

lemma check_session_consistency_frame:
  "sessions (snd (check_session_consistency faults request w)) = sessions w
   \<and> request_rate (snd (check_session_consistency faults request w)) = request_rate w"
  by (auto simp: check_session_consistency_def Let_def split: option.splits prod.splits)

lemma detect_suspicious_activity_result:
  "fst (detect_suspicious_activity faults request w)
     = (CacheGetRate \<notin> faults \<and> rate_exceeded request w \<and> user_email (req_user request) \<noteq> None)"
  by (auto simp: detect_suspicious_activity_def rate_exceeded_def Let_def split: option.splits)

lemma detect_suspicious_activity_frame:
  "sessions (snd (detect_suspicious_activity faults request w)) = sessions w"
  by (auto simp: detect_suspicious_activity_def Let_def split: option.splits)

lemma validate_session_security_result:
  "fst (validate_session_security faults request w)
     = (case req_user request of
          AnonymousUser \<Rightarrow> True
        | CustomUser uid email \<Rightarrow>
            fst (check_session_consistency faults request w)
            \<and> \<not> (CacheGetRate \<notin> faults \<and> rate_exceeded request w))"
proof (cases "req_user request")
  case AnonymousUser
  then show ?thesis by (simp add: validate_session_security_def)
next
  case (CustomUser uid email)
  obtain c w1 where c: "check_session_consistency faults request w = (c, w1)"
    by (cases "check_session_consistency faults request w") auto
  have r: "request_rate w1 = request_rate w"
    using check_session_consistency_frame[of faults request w] c by simp
  obtain d w2 where d: "detect_suspicious_activity faults request w1 = (d, w2)"
    by (cases "detect_suspicious_activity faults request w1") auto
  have dd: "d = (CacheGetRate \<notin> faults \<and> rate_exceeded request w)"
    using detect_suspicious_activity_result[of faults request w1] d r CustomUser
    by (simp add: rate_exceeded_def)
  have "fst (validate_session_security faults request w) = (c \<and> \<not> d)"
    using CustomUser c d by (cases c; cases d) (simp_all add: validate_session_security_def)
  then show ?thesis using CustomUser c dd by simp
qed

lemma validate_session_security_frame:
  "sessions (snd (validate_session_security faults request w)) = sessions w"
proof -
  obtain c w1 where c: "check_session_consistency faults request w = (c, w1)"
    by (cases "check_session_consistency faults request w") auto
  obtain d w2 where d: "detect_suspicious_activity faults request w1 = (d, w2)"
    by (cases "detect_suspicious_activity faults request w1") auto
  have "sessions w1 = sessions w" using check_session_consistency_frame[of faults request w] c by simp
  moreover have "sessions w2 = sessions w1" using detect_suspicious_activity_frame[of faults request w1] d by simp
  ultimately show ?thesis using c d
    by (cases c; cases d) (simp_all add: validate_session_security_def split: user.splits)
qed


lemma create_new_user_session_faults:
  "fst (create_new_user_session parse faults now request w) = None
   \<or> fst (create_new_user_session parse faults now request w)
       = fst (create_new_user_session parse {} now request w)"
  by (auto simp: create_new_user_session_def Let_def split: user.splits option.splits)

lemma create_new_user_session_frame:
  "request_rate (snd (create_new_user_session parse faults now request w)) = request_rate w"
  by (auto simp: create_new_user_session_def Let_def split: user.splits option.splits)

lemma get_or_create_user_session_faults:
  "fst (get_or_create_user_session parse faults now request w) = None
   \<or> fst (get_or_create_user_session parse faults now request w)
       = fst (get_or_create_user_session parse {} now request w)"
  using create_new_user_session_faults[of parse faults now request w]
  by (auto simp: get_or_create_user_session_def Let_def split: user.splits option.splits)

lemma get_or_create_user_session_frame:
  "request_rate (snd (get_or_create_user_session parse faults now request w)) = request_rate w"
  using create_new_user_session_frame[of parse faults now request w]
  by (auto simp: get_or_create_user_session_def Let_def split: user.splits option.splits)

lemma update_user_activity_frame:
  "request_rate (update_user_activity faults now u w) = request_rate w
   \<and> sessions (update_user_activity faults now u w) = sessions w"
  by (auto simp: update_user_activity_def split: user.splits)

lemma handle_authenticated_session_result:
  "fst (handle_authenticated_session parse faults now request w)
     = request\<lparr>user_session := Some (fst (get_or_create_user_session parse faults now request w))\<rparr>
   \<and> request_rate (snd (handle_authenticated_session parse faults now request w)) = request_rate w
   \<and> sessions (snd (handle_authenticated_session parse faults now request w))
       = sessions (snd (get_or_create_user_session parse faults now request w))"
proof -
  obtain us w1 where g: "get_or_create_user_session parse faults now request w = (us, w1)"
    by (cases "get_or_create_user_session parse faults now request w") auto
  have "request_rate w1 = request_rate w"
    using get_or_create_user_session_frame[of parse faults now request w] g by simp
  then show ?thesis
    using g update_user_activity_frame[of faults now "req_user request" w1]
    by (auto simp: handle_authenticated_session_def Let_def split: option.splits prod.splits)
qed

lemma handle_anonymous_session_frame:
  "request_rate (handle_anonymous_session faults now request w) = request_rate w
   \<and> sessions (handle_anonymous_session faults now request w) = sessions w"
  by (simp add: handle_anonymous_session_def Let_def)

lemma check_concurrent_sessions_true:
  "fst (check_concurrent_sessions limit faults now request w) = True"
  by (auto simp: check_concurrent_sessions_def Let_def
           split: user.splits option.splits sum.splits)

lemma process_request_outcome:
  "fst (Session_process_request parse limit faults now t request w) =
     (if should_skip_session_management request then Inr None
      else
        (case resolved parse faults now t request w of
           (request2, w1) \<Rightarrow>
             (case validate_session_security faults request2 w1 of
                (True, w2) \<Rightarrow> Inr None
              | (False, w2) \<Rightarrow>
                  map_sum id Some (fst (create_security_violation_response faults now request2 w2)))))"
proof (cases "should_skip_session_management request")
  case True
  then show ?thesis by (simp add: Session_process_request_def)
next
  case False
  obtain request2 w1 where r: "resolved parse faults now t request w = (request2, w1)"
    by (cases "resolved parse faults now t request w") auto
  obtain v w2 where v: "validate_session_security faults request2 w1 = (v, w2)"
    by (cases "validate_session_security faults request2 w1") auto
  obtain c w3 where c: "check_concurrent_sessions limit faults now request2 w2 = (c, w3)"
    by (cases "check_concurrent_sessions limit faults now request2 w2") auto
  have ct: "c = True" using check_concurrent_sessions_true[of limit faults now request2 w2] c by simp
  obtain out request3 w4
    where o: "create_security_violation_response faults now request2 w2 = (out, request3, w4)"
    by (cases "create_security_violation_response faults now request2 w2") auto
  have r': "(if is_authenticated (req_user request)
        then handle_authenticated_session parse faults now (request\<lparr>session_start_time := Some t\<rparr>) w
        else (request\<lparr>session_start_time := Some t\<rparr>,
              handle_anonymous_session faults now (request\<lparr>session_start_time := Some t\<rparr>) w))
       = (request2, w1)"
    using r by (simp add: resolved_def Let_def)
  show ?thesis
    using False r r' v c ct o
    by (cases v; cases out) (simp_all add: Session_process_request_def Let_def)
qed

lemma process_request_proceeds_iff:
  "(fst (Session_process_request parse limit faults now t request w) = Inr None)
     = (should_skip_session_management request
        \<or> fst (validate_session_security faults
                 (fst (resolved parse faults now t request w))
                 (snd (resolved parse faults now t request w))))"
proof -
  obtain request2 w1 where r: "resolved parse faults now t request w = (request2, w1)"
    by (cases "resolved parse faults now t request w") auto
  obtain v w2 where v: "validate_session_security faults request2 w1 = (v, w2)"
    by (cases "validate_session_security faults request2 w1") auto
  show ?thesis
    using r v process_request_outcome[of parse limit faults now t request w]
    by (cases v; cases "fst (create_security_violation_response faults now request2 w2)") auto
qed


lemma resolved_fields:
  "req_user (fst (resolved parse faults now t request w)) = req_user request
   \<and> HTTP_USER_AGENT (fst (resolved parse faults now t request w)) = HTTP_USER_AGENT request
   \<and> HTTP_X_FORWARDED_FOR (fst (resolved parse faults now t request w)) = HTTP_X_FORWARDED_FOR request
   \<and> REMOTE_ADDR (fst (resolved parse faults now t request w)) = REMOTE_ADDR request
   \<and> request_rate (snd (resolved parse faults now t request w)) = request_rate w"
  using handle_authenticated_session_result[of parse faults now "request\<lparr>session_start_time := Some t\<rparr>" w]
    handle_anonymous_session_frame[of faults now "request\<lparr>session_start_time := Some t\<rparr>" w]
  by (simp add: resolved_def Let_def)

lemma resolved_user_session:
  "is_authenticated (req_user request) \<Longrightarrow>
     user_session (fst (resolved parse faults now t request w))
       = Some (fst (get_or_create_user_session parse faults now
                      (request\<lparr>session_start_time := Some t\<rparr>) w))"
  using handle_authenticated_session_result[of parse faults now "request\<lparr>session_start_time := Some t\<rparr>" w]
  by (simp add: resolved_def Let_def)

lemma consistent_cong:
  assumes "user_session r1 = user_session r2" "req_user r1 = req_user r2"
    "HTTP_USER_AGENT r1 = HTTP_USER_AGENT r2"
    "HTTP_X_FORWARDED_FOR r1 = HTTP_X_FORWARDED_FOR r2" "REMOTE_ADDR r1 = REMOTE_ADDR r2"
  shows "consistent r1 = consistent r2"
proof -
  have "http_user_agent r1 = http_user_agent r2" using assms(3) by (simp add: http_user_agent_def split: option.splits)
  moreover have "get_client_ip r1 = get_client_ip r2" using assms(4,5) by (simp add: get_client_ip_def split: option.splits)
  ultimately show ?thesis using assms(1,2)
    by (simp add: consistent_def split: option.splits prod.splits)
qed

lemma rate_exceeded_cong:
  assumes "req_user r1 = req_user r2"
    "HTTP_X_FORWARDED_FOR r1 = HTTP_X_FORWARDED_FOR r2" "REMOTE_ADDR r1 = REMOTE_ADDR r2"
    "request_rate w1 = request_rate w2"
  shows "rate_exceeded r1 w1 = rate_exceeded r2 w2"
proof -
  have "get_client_ip r1 = get_client_ip r2" using assms(2,3) by (simp add: get_client_ip_def split: option.splits)
  then show ?thesis using assms(1,4) by (simp add: rate_exceeded_def split: option.splits)
qed

lemma session_faults_fail_open:
  assumes nf: "ConsistencyBody \<notin> faults"
    and ok: "fst (Session_process_request parse limit {} now t request w) = Inr None"
  shows "fst (Session_process_request parse limit faults now t request w) = Inr None"
proof (cases "should_skip_session_management request")
  case True
  then show ?thesis by (simp add: process_request_proceeds_iff)
next
  case False
  let ?r0 = "fst (resolved parse {} now t request w)" and ?w0 = "snd (resolved parse {} now t request w)"
  let ?rF = "fst (resolved parse faults now t request w)"
  let ?wF = "snd (resolved parse faults now t request w)"
  have v0: "fst (validate_session_security {} ?r0 ?w0)"
    using ok False by (simp add: process_request_proceeds_iff)
  have "fst (validate_session_security faults ?rF ?wF)"
  proof (cases "req_user request")
    case AnonymousUser
    then show ?thesis
      using resolved_fields[of parse faults now t request w]
      by (simp add: validate_session_security_result)
  next
    case (CustomUser uid email)
    then have auth: "is_authenticated (req_user request)" by simp
    have u0: "req_user ?r0 = CustomUser uid email" and uF: "req_user ?rF = CustomUser uid email"
      using resolved_fields[of parse "{}" now t request w]
        resolved_fields[of parse faults now t request w] CustomUser by simp_all
    from v0 u0 have c0: "consistent ?r0" and e0: "\<not> rate_exceeded ?r0 ?w0"
      by (simp_all add: validate_session_security_result check_session_consistency_result)
    have eF: "\<not> rate_exceeded ?rF ?wF"
      using e0 rate_exceeded_cong[of ?rF ?r0 ?wF ?w0]
        resolved_fields[of parse "{}" now t request w]
        resolved_fields[of parse faults now t request w] by simp
    have cF: "consistent ?rF"
    proof (cases "fst (get_or_create_user_session parse faults now
                      (request\<lparr>session_start_time := Some t\<rparr>) w)")
      case None
      then show ?thesis using resolved_user_session[OF auth, of parse faults now t w]
        by (simp add: consistent_def)
    next
      case (Some obj)
      then have "user_session ?rF = user_session ?r0"
        using get_or_create_user_session_faults[of parse faults now
                "request\<lparr>session_start_time := Some t\<rparr>" w]
          resolved_user_session[OF auth, of parse faults now t w]
          resolved_user_session[OF auth, of parse "{}" now t w] by simp
      then show ?thesis
        using c0 consistent_cong[of ?rF ?r0]
          resolved_fields[of parse "{}" now t request w]
          resolved_fields[of parse faults now t request w] by simp
    qed
    show ?thesis using cF eF uF nf
      by (simp add: validate_session_security_result check_session_consistency_result)
  qed
  then show ?thesis by (simp add: process_request_proceeds_iff)
qed


lemma lookup_session_some:
  assumes "lookup_session uid key rows = Some (pk, row)"
  shows "pk < length rows \<and> row = rows ! pk \<and> user_id row = uid \<and> is_active row
       \<and> Some (session_key row) = key"
proof -
  let ?P = "\<lambda>pk. user_id (rows ! pk) = uid \<and> is_active (rows ! pk) \<and> Some (session_key (rows ! pk)) = key"
  obtain rest where f: "filter ?P [0 ..< length rows] = pk # rest" and r: "row = rows ! pk"
    using assms by (auto simp: lookup_session_def split: list.splits)
  have "pk \<in> set (filter ?P [0 ..< length rows])" using f by simp
  then show ?thesis using r by simp
qed

lemma get_or_create_user_session_found:
  assumes "req_user request = CustomUser uid email"
    and "DbLookup \<notin> faults" "DbSaveLastActivity \<notin> faults"
    and "lookup_session uid (django_session_key request) (sessions w) = Some (pk, row)"
  shows "get_or_create_user_session parse faults now request w
           = (Some (pk, row\<lparr>last_activity := now\<rparr>),
              w\<lparr>sessions := (sessions w)[pk := (sessions w ! pk)\<lparr>last_activity := now\<rparr>]\<rparr>)"
  using assms by (simp add: get_or_create_user_session_def)

lemma create_new_user_session_some:
  "create_new_user_session parse faults now request w = (Some (pk, row), w1) \<Longrightarrow>
     pk < length (sessions w1) \<and> sessions w1 ! pk = row
     \<and> user_agent row = http_user_agent request \<and> Some (ip_address row) = get_client_ip request"
  by (auto simp: create_new_user_session_def Let_def
           split: if_splits user.splits option.splits)

lemma get_or_create_user_session_some:
  assumes "get_or_create_user_session parse faults now request w = (Some (pk, row), w1)"
  shows "pk < length (sessions w1)"
proof (cases "req_user request")
  case AnonymousUser
  with assms show ?thesis by (simp add: get_or_create_user_session_def)
next
  case (CustomUser uid email)
  show ?thesis
  proof (cases "lookup_session uid (django_session_key request) (sessions w)")
    case None
    with assms CustomUser
    have "create_new_user_session parse faults now request w = (Some (pk, row), w1)"
      by (simp add: get_or_create_user_session_def split: if_splits)
    from create_new_user_session_some[OF this] show ?thesis by simp
  next
    case (Some found)
    obtain pk0 row0 where found: "found = (pk0, row0)" by (cases found) auto
    from lookup_session_some[of uid "django_session_key request" "sessions w" pk0 row0] Some found
    have "pk0 < length (sessions w)" by simp
    with assms CustomUser Some found show ?thesis
      by (auto simp: get_or_create_user_session_def split: if_splits)
  qed
qed

lemma create_security_violation_response_ends:
  assumes "user_email (req_user request) = Some email"
    and "user_session request = Some (Some obj)"
    and "DbSaveEnd \<notin> faults" and "fst obj < length (sessions w)"
  shows "fst (create_security_violation_response faults now request w)
           = Inr security_violation_response
       \<and> sessions (snd (snd (create_security_violation_response faults now request w)))
           = (sessions w)[fst obj := (sessions w ! fst obj)\<lparr>is_active := False,
                                                             ended_at := Some now\<rparr>]"
  using assms
  by (simp add: create_security_violation_response_def end_session_def Let_def)

lemma process_request_world:
  "snd (snd (Session_process_request parse limit faults now t request w)) =
     (if should_skip_session_management request then w
      else
        (case resolved parse faults now t request w of
           (request2, w1) \<Rightarrow>
             (case validate_session_security faults request2 w1 of
                (True, w2) \<Rightarrow> snd (check_concurrent_sessions limit faults now request2 w2)
              | (False, w2) \<Rightarrow>
                  snd (snd (create_security_violation_response faults now request2 w2)))))"
proof (cases "should_skip_session_management request")
  case True
  then show ?thesis by (simp add: Session_process_request_def)
next
  case False
  obtain request2 w1 where r: "resolved parse faults now t request w = (request2, w1)"
    by (cases "resolved parse faults now t request w") auto
  obtain v w2 where v: "validate_session_security faults request2 w1 = (v, w2)"
    by (cases "validate_session_security faults request2 w1") auto
  obtain c w3 where c: "check_concurrent_sessions limit faults now request2 w2 = (c, w3)"
    by (cases "check_concurrent_sessions limit faults now request2 w2") auto
  obtain out request3 w4
    where o: "create_security_violation_response faults now request2 w2 = (out, request3, w4)"
    by (cases "create_security_violation_response faults now request2 w2") auto
  have r': "(if is_authenticated (req_user request)
        then handle_authenticated_session parse faults now (request\<lparr>session_start_time := Some t\<rparr>) w
        else (request\<lparr>session_start_time := Some t\<rparr>,
              handle_anonymous_session faults now (request\<lparr>session_start_time := Some t\<rparr>) w))
       = (request2, w1)"
    using r by (simp add: resolved_def Let_def)
  show ?thesis
    using False r r' v c o
    by (cases v; cases out; cases c) (simp_all add: Session_process_request_def Let_def)
qed

lemma process_request_violation:
  assumes ns: "\<not> should_skip_session_management request"
    and u: "req_user request = CustomUser uid email"
    and g: "get_or_create_user_session parse faults now (request\<lparr>session_start_time := Some t\<rparr>) w
              = (Some (pk, row), w1)"
    and c: "\<not> consistent (request\<lparr>user_session := Some (Some (pk, row))\<rparr>)
            \<or> ConsistencyBody \<in> faults"
    and f: "DbSaveEnd \<notin> faults"
  shows "fst (Session_process_request parse limit faults now t request w)
           = Inr (Some security_violation_response)
       \<and> sessions (snd (snd (Session_process_request parse limit faults now t request w)))
           = (sessions w1)[pk := (sessions w1 ! pk)\<lparr>is_active := False, ended_at := Some now\<rparr>]"
proof -
  let ?r1 = "request\<lparr>session_start_time := Some t\<rparr>"
  obtain request2 w2 where r: "resolved parse faults now t request w = (request2, w2)"
    by (cases "resolved parse faults now t request w") auto
  have auth: "is_authenticated (req_user request)" using u by simp
  have r2: "request2 = ?r1\<lparr>user_session := Some (Some (pk, row))\<rparr>"
    and s2: "sessions w2 = sessions w1"
    using r g auth handle_authenticated_session_result[of parse faults now ?r1 w]
    by (simp_all add: resolved_def Let_def)
  have u2: "req_user request2 = CustomUser uid email" using r2 u by simp
  have "consistent request2 = consistent (request\<lparr>user_session := Some (Some (pk, row))\<rparr>)"
    by (rule consistent_cong) (simp_all add: r2)
  then have nc: "\<not> fst (check_session_consistency faults request2 w2)"
    using c r2 by (auto simp: check_session_consistency_result)
  obtain v w3 where v: "validate_session_security faults request2 w2 = (v, w3)"
    by (cases "validate_session_security faults request2 w2") auto
  have vf: "v = False"
    using validate_session_security_result[of faults request2 w2] v u2 nc by simp
  have s3: "sessions w3 = sessions w1"
    using validate_session_security_frame[of faults request2 w2] v s2 by simp
  have lt: "pk < length (sessions w3)"
    using get_or_create_user_session_some[OF g] s3 by simp
  have e: "user_email (req_user request2) = Some email" using u2 by simp
  have us: "user_session request2 = Some (Some (pk, row))" using r2 by simp
  note cs = create_security_violation_response_ends[OF e us f, of w3 now] 
  show ?thesis
    using ns r v vf cs lt s3
    by (simp add: process_request_outcome process_request_world)
qed

lemma least_by_last_activity_least:
  "least_by_last_activity rows best pks \<in> set (best # pks)
   \<and> (\<forall>q \<in> set (best # pks).
         last_activity (rows ! least_by_last_activity rows best pks) \<le> last_activity (rows ! q))"
proof (induction pks arbitrary: best)
  case Nil
  then show ?case by simp
next
  case (Cons pk pks)
  let ?b = "if last_activity (rows ! pk) < last_activity (rows ! best) then pk else best"
  from Cons.IH[of ?b] show ?case by (auto split: if_splits)
qed

lemma oldest_session_least:
  assumes "oldest_session uid rows = Some (pk, row)"
  shows "pk \<in> set (active_sessions uid rows) \<and> row = rows ! pk
       \<and> (\<forall>q \<in> set (active_sessions uid rows). last_activity (rows ! pk) \<le> last_activity (rows ! q))"
proof (cases "active_sessions uid rows")
  case Nil
  with assms show ?thesis by (simp add: oldest_session_def)
next
  case (Cons p ps)
  with assms have pk: "pk = least_by_last_activity rows p ps" and row: "row = rows ! pk"
    by (auto simp: oldest_session_def Let_def)
  from least_by_last_activity_least[of rows p ps] pk row Cons show ?thesis by simp
qed

lemma oldest_session_exists:
  "active_sessions uid rows \<noteq> [] \<Longrightarrow> \<exists>pk. oldest_session uid rows = Some (pk, rows ! pk)"
  by (cases "active_sessions uid rows") (auto simp: oldest_session_def Let_def)

lemma active_sessions_mem:
  "pk \<in> set (active_sessions uid rows) \<longleftrightarrow>
     pk < length rows \<and> user_id (rows ! pk) = uid \<and> is_active (rows ! pk)"
  by (auto simp: active_sessions_def)

lemma check_concurrent_sessions_evicts:
  assumes f: "DbCount \<notin> faults" "DbOldest \<notin> faults" "DbSaveEnd \<notin> faults"
    and u: "req_user request = CustomUser uid email"
    and n: "limit \<le> int (length (active_sessions uid (sessions w)))"
    and ne: "active_sessions uid (sessions w) \<noteq> []"
  shows "\<exists>pk. pk \<in> set (active_sessions uid (sessions w))
      \<and> (\<forall>q \<in> set (active_sessions uid (sessions w)).
             last_activity (sessions w ! pk) \<le> last_activity (sessions w ! q))
      \<and> sessions (snd (check_concurrent_sessions limit faults now request w))
          = (sessions w)[pk := (sessions w ! pk)\<lparr>is_active := False, ended_at := Some now\<rparr>]"
proof -
  obtain pk where o: "oldest_session uid (sessions w) = Some (pk, sessions w ! pk)"
    using oldest_session_exists[OF ne] by blast
  note l = oldest_session_least[OF o]
  then have lt: "pk < length (sessions w)" by (simp add: active_sessions_mem)
  have "sessions (snd (check_concurrent_sessions limit faults now request w))
          = (sessions w)[pk := (sessions w ! pk)\<lparr>is_active := False, ended_at := Some now\<rparr>]"
    using f u n o lt
    by (simp add: check_concurrent_sessions_def Let_def end_session_def write_log_def)
  with l show ?thesis by blast
qed

lemma active_after_eviction:
  "active_sessions uid (rows[pk := (rows ! pk)\<lparr>is_active := False, ended_at := e\<rparr>])
          = removeAll pk (active_sessions uid rows)"
proof -
  let ?rows' = "rows[pk := (rows ! pk)\<lparr>is_active := False, ended_at := e\<rparr>]"
  let ?P' = "\<lambda>q. user_id (?rows' ! q) = uid \<and> is_active (?rows' ! q)"
  let ?P = "\<lambda>q. user_id (rows ! q) = uid \<and> is_active (rows ! q)"
  have eq: "?P' q = (?P q \<and> pk \<noteq> q)" if "q < length rows" for q
    using that by (cases "q = pk") (simp_all add: nth_list_update)
  have "filter ?P' [0 ..< length rows] = filter (\<lambda>q. ?P q \<and> pk \<noteq> q) [0 ..< length rows]"
    by (rule filter_cong) (simp_all add: eq)
  also have "\<dots> = removeAll pk (filter ?P [0 ..< length rows])"
    by (simp add: removeAll_filter_not_eq conj_commute)
  finally show ?thesis by (simp add: active_sessions_def)
qed

lemma distinct_active_sessions: "distinct (active_sessions uid rows)"
  by (simp add: active_sessions_def)

lemma length_active_after_eviction:
  assumes "pk \<in> set (active_sessions uid rows)"
  shows "Suc (length (active_sessions uid (rows[pk := (rows ! pk)\<lparr>is_active := False, ended_at := e\<rparr>])))
           = length (active_sessions uid rows)"
proof -
  have "removeAll pk (active_sessions uid rows) = remove1 pk (active_sessions uid rows)"
    using distinct_active_sessions by (simp add: distinct_remove1_removeAll)
  then show ?thesis
    using assms by (simp add: active_after_eviction length_remove1) (cases "active_sessions uid rows", auto)
qed

lemma six_active: "active_sessions 7 six_sessions = [0, 1, 2, 3, 4, 5]"
  by (simp add: active_sessions_def six_sessions_def sample_session_def upt_conv_Cons)

lemma six_oldest: "oldest_session 7 six_sessions = Some (1, six_sessions ! 1)"
proof -
  have "least_by_last_activity six_sessions 0 [1, 2, 3, 4, 5] = 1"
    by (simp add: six_sessions_def)
  then show ?thesis by (simp add: oldest_session_def six_active)
qed

lemma security_violation_response_only:
  "fst (create_security_violation_response faults now request w) = Inr r
     \<Longrightarrow> r = security_violation_response"
  by (auto simp: create_security_violation_response_def Let_def
           split: option.splits prod.splits sum.splits)

lemma process_request_never_429:
  "fst (Session_process_request parse limit faults now t request w)
     \<noteq> Inr (Some create_concurrent_session_response)"
proof (cases "should_skip_session_management request")
  case True
  then show ?thesis by (simp add: process_request_outcome)
next
  case False
  have ne: "security_violation_response \<noteq> create_concurrent_session_response"
    by (simp add: security_violation_response_def create_concurrent_session_response_def
          JsonResponse_def)
  obtain request2 w1 where r: "resolved parse faults now t request w = (request2, w1)"
    by (cases "resolved parse faults now t request w") auto
  obtain v w2 where v: "validate_session_security faults request2 w1 = (v, w2)"
    by (cases "validate_session_security faults request2 w1") auto
  show ?thesis
  proof (cases v)
    case True
    then show ?thesis using False r v by (simp add: process_request_outcome)
  next
    case vf: False
    show ?thesis
    proof (cases "fst (create_security_violation_response faults now request2 w2)")
      case (Inl e)
      then show ?thesis using False r v vf by (simp add: process_request_outcome)
    next
      case (Inr resp)
      from security_violation_response_only[OF this] have "resp = security_violation_response" .
      then show ?thesis using False r v vf Inr ne by (simp add: process_request_outcome)
    qed
  qed
qed

lemma check_concurrent_sessions_evicts_oldest:
  assumes h: "DbCount \<notin> faults" "DbOldest \<notin> faults" "DbSaveEnd \<notin> faults"
        "req_user request = CustomUser uid email"
        "limit \<le> int (length (active_sessions uid (sessions w)))"
        "active_sessions uid (sessions w) \<noteq> []"
  shows "\<exists>pk. pk < length (sessions w) \<and> user_id (sessions w ! pk) = uid
                \<and> is_active (sessions w ! pk)
                \<and> (\<forall>q. q < length (sessions w) \<and> user_id (sessions w ! q) = uid
                          \<and> is_active (sessions w ! q)
                       \<longrightarrow> last_activity (sessions w ! pk) \<le> last_activity (sessions w ! q))
                \<and> sessions (snd (check_concurrent_sessions limit faults now request w))
                    = (sessions w)[pk := (sessions w ! pk)\<lparr>is_active := False,
                                                            ended_at := Some now\<rparr>]
                \<and> Suc (length (active_sessions uid
                          (sessions (snd (check_concurrent_sessions limit faults now request w)))))
                    = length (active_sessions uid (sessions w))"
proof -
  from check_concurrent_sessions_evicts[OF h]
  obtain pk where pk: "pk \<in> set (active_sessions uid (sessions w))"
    and least: "\<forall>q \<in> set (active_sessions uid (sessions w)).
           last_activity (sessions w ! pk) \<le> last_activity (sessions w ! q)"
    and upd: "sessions (snd (check_concurrent_sessions limit faults now request w))
        = (sessions w)[pk := (sessions w ! pk)\<lparr>is_active := False, ended_at := Some now\<rparr>]"
    by blast
  have len: "Suc (length (active_sessions uid
               (sessions (snd (check_concurrent_sessions limit faults now request w)))))
          = length (active_sessions uid (sessions w))"
    unfolding upd by (rule length_active_after_eviction[OF pk])
  have p: "pk < length (sessions w) \<and> user_id (sessions w ! pk) = uid \<and> is_active (sessions w ! pk)"
    using pk by (simp add: active_sessions_mem)
  have l: "\<forall>q. q < length (sessions w) \<and> user_id (sessions w ! q) = uid
                  \<and> is_active (sessions w ! q)
               \<longrightarrow> last_activity (sessions w ! pk) \<le> last_activity (sessions w ! q)"
  proof (intro allI impI)
    fix q
    assume "q < length (sessions w) \<and> user_id (sessions w ! q) = uid \<and> is_active (sessions w ! q)"
    then have "q \<in> set (active_sessions uid (sessions w))" by (simp add: active_sessions_mem)
    with least show "last_activity (sessions w ! pk) \<le> last_activity (sessions w ! q)" by blast
  qed
  from p l upd len show ?thesis by (intro exI[of _ pk]) simp
qed

text \<open>
  Claim C8.  \<open>_check_concurrent_sessions\<close> returns \<open>True\<close> whatever happens, and
  \<open>process_request\<close> never answers with the 429 response.  When the queries and the
  write of the check succeed, the user has at least \<open>limit\<close> active sessions and at
  least one, then exactly one row of the table changes: it is an active session of that
  user with the least \<open>last_activity\<close> among the user's active sessions, and it becomes
  inactive with \<open>ended_at\<close> set to the current time; the user then has one active
  session less.
\<close>

theorem concurrent_sessions_evict_oldest:
  "fst (check_concurrent_sessions limit faults now request w) = True
   \<and> fst (Session_process_request parse limit faults now t request w)
        \<noteq> Inr (Some create_concurrent_session_response)
   \<and> (DbCount \<notin> faults \<and> DbOldest \<notin> faults \<and> DbSaveEnd \<notin> faults
        \<and> req_user request = CustomUser uid email
        \<and> limit \<le> int (length (active_sessions uid (sessions w)))
        \<and> active_sessions uid (sessions w) \<noteq> []
      \<longrightarrow> (\<exists>pk. pk < length (sessions w) \<and> user_id (sessions w ! pk) = uid
                \<and> is_active (sessions w ! pk)
                \<and> (\<forall>q. q < length (sessions w) \<and> user_id (sessions w ! q) = uid
                          \<and> is_active (sessions w ! q)
                       \<longrightarrow> last_activity (sessions w ! pk) \<le> last_activity (sessions w ! q))
                \<and> sessions (snd (check_concurrent_sessions limit faults now request w))
                    = (sessions w)[pk := (sessions w ! pk)\<lparr>is_active := False,
                                                            ended_at := Some now\<rparr>]
                \<and> Suc (length (active_sessions uid
                          (sessions (snd (check_concurrent_sessions limit faults now request w)))))
                    = length (active_sessions uid (sessions w))))"
proof (intro conjI impI)
  show "fst (check_concurrent_sessions limit faults now request w) = True"
    by (rule check_concurrent_sessions_true)
  show "fst (Session_process_request parse limit faults now t request w)
        \<noteq> Inr (Some create_concurrent_session_response)"
    by (rule process_request_never_429)
next
  assume "DbCount \<notin> faults \<and> DbOldest \<notin> faults \<and> DbSaveEnd \<notin> faults
        \<and> req_user request = CustomUser uid email
        \<and> limit \<le> int (length (active_sessions uid (sessions w)))
        \<and> active_sessions uid (sessions w) \<noteq> []"
  then show "\<exists>pk. pk < length (sessions w) \<and> user_id (sessions w ! pk) = uid
                \<and> is_active (sessions w ! pk)
                \<and> (\<forall>q. q < length (sessions w) \<and> user_id (sessions w ! q) = uid
                          \<and> is_active (sessions w ! q)
                       \<longrightarrow> last_activity (sessions w ! pk) \<le> last_activity (sessions w ! q))
                \<and> sessions (snd (check_concurrent_sessions limit faults now request w))
                    = (sessions w)[pk := (sessions w ! pk)\<lparr>is_active := False,
                                                            ended_at := Some now\<rparr>]
                \<and> Suc (length (active_sessions uid
                          (sessions (snd (check_concurrent_sessions limit faults now request w)))))
                    = length (active_sessions uid (sessions w))"
    using check_concurrent_sessions_evicts_oldest[of faults request uid email limit w now] by blast
qed

text \<open>
  Scenario E as the witness: six active sessions of one user, limit 5; the session with
  the least \<open>last_activity\<close> (row 1) is ended and five stay active.
\<close>

theorem concurrent_sessions_evict_oldest_witness:
  "req_user sample_request = CustomUser 7 ''user@example.com''
   \<and> (5::int) \<le> int (length (active_sessions 7 (sessions (sample_world\<lparr>sessions := six_sessions\<rparr>))))
   \<and> check_concurrent_sessions 5 {} 100 sample_request (sample_world\<lparr>sessions := six_sessions\<rparr>)
       = (True,
          sample_world\<lparr>sessions := six_sessions[1 := (six_sessions ! 1)\<lparr>is_active := False,
                                                                      ended_at := Some 100\<rparr>],
             logs := [Log INFO (''Ended oldest session for user user@example.com''
                                  @ '' due to concurrent session limit'') None]\<rparr>)
   \<and> length (active_sessions 7
        (sessions (snd (check_concurrent_sessions 5 {} 100 sample_request
                          (sample_world\<lparr>sessions := six_sessions\<rparr>))))) = 5"
proof -
  let ?w = "sample_world\<lparr>sessions := six_sessions\<rparr>"
  have u: "req_user sample_request = CustomUser 7 ''user@example.com''"
    by (simp add: sample_request_def)
  have n: "(5::int) \<le> int (length (active_sessions 7 (sessions ?w)))"
    by (simp add: six_active)
  have ne: "active_sessions 7 (sessions ?w) \<noteq> []" by (simp add: six_active)
  have ev: "check_concurrent_sessions 5 {} 100 sample_request ?w
       = (True,
          sample_world\<lparr>sessions := six_sessions[1 := (six_sessions ! 1)\<lparr>is_active := False,
                                                                      ended_at := Some 100\<rparr>],
             logs := [Log INFO (''Ended oldest session for user user@example.com''
                                  @ '' due to concurrent session limit'') None]\<rparr>)"
    using u by (simp add: check_concurrent_sessions_def six_active six_oldest end_session_def
        sample_world_def) (simp add: six_sessions_def write_log_def)
  from concurrent_sessions_evict_oldest[of 5 "{}" 100 sample_request ?w _ _ 7 "''user@example.com''"]
    u n ne
  have "Suc (length (active_sessions 7
          (sessions (snd (check_concurrent_sessions 5 {} 100 sample_request ?w)))))
        = length (active_sessions 7 (sessions ?w))"
    by blast
  then have "length (active_sessions 7
          (sessions (snd (check_concurrent_sessions 5 {} 100 sample_request ?w)))) = 5"
    by (simp add: six_active)
  with u n ev show ?thesis by simp
qed

text \<open>
  Claim C9, as the code has it.  The device class stored with a new session is
  \<open>_get_device_type\<close> of the parsed user-agent string of the request, and the order of
  the tests is mobile, tablet, desktop, unknown: a user agent classified as mobile gets
  \<open>mobile\<close> even when it is also classified as a tablet; otherwise tablet, then desktop,
  else \<open>unknown\<close>.
\<close>

theorem device_type_precedence:
  "get_device_type ua =
     (if is_mobile ua then ''mobile''
      else if is_tablet ua then ''tablet''
      else if is_pc ua then ''desktop'' else ''unknown'')
   \<and> (create_new_user_session parse faults now request w = (Some (pk, row), w1)
        \<longrightarrow> device_type row = get_device_type (parse (http_user_agent request))
          \<and> pk = length (sessions w) \<and> sessions w1 = sessions w @ [row]
          \<and> is_active row \<and> page_views row = 0 \<and> chat_interactions row = 0)"
  by (auto simp: get_device_type_def create_new_user_session_def Let_def write_log_def
           split: if_splits user.splits option.splits prod.splits)

theorem device_type_precedence_witness:
  "create_new_user_session sample_parse {} 5 sample_request (sample_world\<lparr>sessions := []\<rparr>)
     = (Some (0, sample_session\<lparr>started_at := 5, last_activity := 5\<rparr>),
        sample_world\<lparr>sessions := [sample_session\<lparr>started_at := 5, last_activity := 5\<rparr>],
           logs := [Log INFO (''New user session created: user=user@example.com''
                                @ '', session_id=abc, device=desktop'') None]\<rparr>)
   \<and> device_type (sample_session\<lparr>started_at := 5, last_activity := 5\<rparr>)
       = get_device_type (sample_parse (http_user_agent sample_request))
   \<and> get_device_type (sample_parse (http_user_agent sample_request)) = ''desktop''"
proof -
  let ?w = "sample_world\<lparr>sessions := []\<rparr>"
  let ?row = "sample_session\<lparr>started_at := 5, last_activity := 5\<rparr>"
  let ?w1 = "sample_world\<lparr>sessions := [?row],
           logs := [Log INFO (''New user session created: user=user@example.com''
                                @ '', session_id=abc, device=desktop'') None]\<rparr>"
  have ev: "create_new_user_session sample_parse {} 5 sample_request ?w = (Some (0, ?row), ?w1)"
    by (simp add: create_new_user_session_def sample_request_def sample_world_def
        sample_session_def sample_parse_def get_device_type_def get_client_ip_def
        http_user_agent_def write_log_def Let_def)
  from device_type_precedence[of "sample_parse (http_user_agent sample_request)"
      sample_parse "{}" 5 sample_request ?w 0 ?row ?w1] ev
  have "device_type ?row = get_device_type (sample_parse (http_user_agent sample_request))"
    and "get_device_type (sample_parse (http_user_agent sample_request)) = ''desktop''"
    by (simp_all add: sample_parse_def)
  with ev show ?thesis by simp
qed

text \<open>
  The claim as stated gives the tablet test precedence.  For a user agent that the parser
  classifies both as mobile and as tablet, the code answers \<open>mobile\<close>.
\<close>

theorem device_type_tablet_and_mobile:
  "get_device_type \<lparr>is_mobile = True, is_tablet = True, is_pc = False,
       browser_family = ''Chrome Mobile iOS'', os_family = ''iOS''\<rparr> = ''mobile''
   \<and> get_device_type \<lparr>is_mobile = True, is_tablet = True, is_pc = False,
       browser_family = ''Chrome Mobile iOS'', os_family = ''iOS''\<rparr> \<noteq> ''tablet''"
  by (simp add: get_device_type_def)

text \<open>
  Claim C4, as the code has it.  \<open>end_session\<close> has no test of \<open>is_active\<close>: on a session
  that was ended at time \<open>t0\<close>, a second call at time \<open>now\<close> raises nothing (the row
  exists and the write succeeds), leaves the object and the row inactive, and writes
  \<open>now\<close> into \<open>ended_at\<close>, on the object and in the row.  The value of \<open>ended_at\<close> is the
  original one exactly when \<open>now = t0\<close>.
\<close>

theorem end_session_again:
  "fst obj < length (sessions w) \<and> DbSaveEnd \<notin> faults
     \<and> end_session faults t0 obj w = (obj1, Inr w1)
   \<longrightarrow> is_active (snd obj1) = False \<and> ended_at (snd obj1) = Some t0
     \<and> is_active (sessions w1 ! fst obj) = False \<and> ended_at (sessions w1 ! fst obj) = Some t0
     \<and> (\<exists>w2. end_session faults now obj1 w1
                 = ((fst obj, (snd obj1)\<lparr>ended_at := Some now\<rparr>), Inr w2)
            \<and> is_active (sessions w2 ! fst obj) = False
            \<and> ended_at (sessions w2 ! fst obj) = Some now
            \<and> sessions w2 = (sessions w1)[fst obj := (sessions w1 ! fst obj)\<lparr>ended_at := Some now\<rparr>]
            \<and> (ended_at (sessions w2 ! fst obj) = ended_at (sessions w1 ! fst obj)) = (now = t0))"
  by (auto simp: end_session_def Let_def)

theorem end_session_again_witness:
  "end_session {} 100 (0, sample_session) sample_world
     = ((0, sample_session\<lparr>is_active := False, ended_at := Some 100\<rparr>),
        Inr (sample_world\<lparr>sessions := [sample_session\<lparr>is_active := False, ended_at := Some 100\<rparr>]\<rparr>))
   \<and> end_session {} 200 (0, sample_session\<lparr>is_active := False, ended_at := Some 100\<rparr>)
        (sample_world\<lparr>sessions := [sample_session\<lparr>is_active := False, ended_at := Some 100\<rparr>]\<rparr>)
     = ((0, sample_session\<lparr>is_active := False, ended_at := Some 200\<rparr>),
        Inr (sample_world\<lparr>sessions := [sample_session\<lparr>is_active := False, ended_at := Some 200\<rparr>]\<rparr>))"
proof -
  let ?obj1 = "(0::nat, sample_session\<lparr>is_active := False, ended_at := Some 100\<rparr>)"
  let ?w1 = "sample_world\<lparr>sessions := [sample_session\<lparr>is_active := False, ended_at := Some 100\<rparr>]\<rparr>"
  have h: "fst (0::nat, sample_session) < length (sessions sample_world) \<and> DbSaveEnd \<notin> {}"
    by (simp add: sample_world_def)
  have ev: "end_session {} 100 (0, sample_session) sample_world = (?obj1, Inr ?w1)"
    by (simp add: end_session_def sample_world_def)
  from end_session_again[of "(0, sample_session)" sample_world "{}" 100 ?obj1 ?w1 200] h ev
  obtain w2 where e2: "end_session {} 200 ?obj1 ?w1
        = ((0, (snd ?obj1)\<lparr>ended_at := Some 200\<rparr>), Inr w2)"
    and s2: "sessions w2 = (sessions ?w1)[0 := (sessions ?w1 ! 0)\<lparr>ended_at := Some 200\<rparr>]"
    by auto
  have "w2 = sample_world\<lparr>sessions := [sample_session\<lparr>is_active := False, ended_at := Some 200\<rparr>]\<rparr>"
    using e2 by (simp add: end_session_def sample_world_def)
  with ev e2 show ?thesis by simp
qed

text \<open>
  The claim as stated keeps the original \<open>ended_at\<close>.  A session ended at time 100 and
  ended again at time 200 has \<open>ended_at = 200\<close>, on the object and in the table.
\<close>

theorem end_session_overwrites_ended_at:
  "ended_at (snd (fst (end_session {} 200
        (0, sample_session\<lparr>is_active := False, ended_at := Some 100\<rparr>)
        (sample_world\<lparr>sessions := [sample_session\<lparr>is_active := False, ended_at := Some 100\<rparr>]\<rparr>))))
     = Some 200
   \<and> map ended_at (case snd (end_session {} 200
        (0, sample_session\<lparr>is_active := False, ended_at := Some 100\<rparr>)
        (sample_world\<lparr>sessions := [sample_session\<lparr>is_active := False, ended_at := Some 100\<rparr>]\<rparr>))
       of Inr w \<Rightarrow> sessions w | Inl e \<Rightarrow> []) = [Some 200]"
  by (simp add: end_session_def sample_world_def)

lemma user_agent_mismatch_fails:
  assumes "req_user request = CustomUser uid email"
    and "user_session request = Some (Some (pk, us))"
    and "user_agent us \<noteq> http_user_agent request"
  shows "fst (check_session_consistency faults request w) = False
       \<and> fst (validate_session_security faults request w) = False
       \<and> (ConsistencyBody \<notin> faults \<longrightarrow>
            Log WARNING (''User agent changed for user '' @ email) None
              \<in> set (logs (snd (check_session_consistency faults request w))))"
proof -
  have "\<not> consistent request" using assms(2,3) by (simp add: consistent_def)
  then have c: "fst (check_session_consistency faults request w) = False"
    by (simp add: check_session_consistency_result)
  then have v: "fst (validate_session_security faults request w) = False"
    using assms(1) by (simp add: validate_session_security_result)
  have "ConsistencyBody \<notin> faults \<longrightarrow>
            Log WARNING (''User agent changed for user '' @ email) None
              \<in> set (logs (snd (check_session_consistency faults request w)))"
    using assms by (simp add: check_session_consistency_def write_log_def Let_def)
  with c v show ?thesis by simp
qed

lemma user_agent_mismatch_ends_session:
  assumes ns: "\<not> should_skip_session_management request"
    and u: "req_user request = CustomUser uid email"
    and f: "DbLookup \<notin> faults" "DbSaveLastActivity \<notin> faults" "DbSaveEnd \<notin> faults"
    and l: "lookup_session uid (django_session_key request) (sessions w) = Some (pk, row)"
    and m: "user_agent row \<noteq> http_user_agent request"
  shows "fst (Session_process_request parse limit faults now t request w)
           = Inr (Some security_violation_response)
       \<and> status security_violation_response = 403
       \<and> is_active (sessions (snd (snd (Session_process_request parse limit faults now t request w))) ! pk)
           = False
       \<and> ended_at (sessions (snd (snd (Session_process_request parse limit faults now t request w))) ! pk)
           = Some now"
proof -
  let ?r1 = "request\<lparr>session_start_time := Some t\<rparr>"
  let ?w1 = "w\<lparr>sessions := (sessions w)[pk := (sessions w ! pk)\<lparr>last_activity := now\<rparr>]\<rparr>"
  have g: "get_or_create_user_session parse faults now ?r1 w
             = (Some (pk, row\<lparr>last_activity := now\<rparr>), ?w1)"
    using get_or_create_user_session_found[of ?r1 uid email faults w pk row parse now] u f(1,2) l
    by simp
  have nc: "\<not> consistent (request\<lparr>user_session := Some (Some (pk, row\<lparr>last_activity := now\<rparr>))\<rparr>)"
    using m by (simp add: consistent_def http_user_agent_def)
  have lt: "pk < length (sessions w)" using lookup_session_some[OF l] by simp
  from process_request_violation[OF ns u g _ f(3), of limit] nc
  have r: "fst (Session_process_request parse limit faults now t request w)
           = Inr (Some security_violation_response)"
    and s: "sessions (snd (snd (Session_process_request parse limit faults now t request w)))
           = (sessions ?w1)[pk := (sessions ?w1 ! pk)\<lparr>is_active := False, ended_at := Some now\<rparr>]"
    by simp_all
  have st: "status security_violation_response = 403"
    by (simp add: security_violation_response_def JsonResponse_def)
  show ?thesis using r st lt unfolding s by simp
qed

lemma ip_change_passes:
  assumes nf: "ConsistencyBody \<notin> faults"
    and u: "req_user request = CustomUser uid email"
    and s: "user_session request = Some (Some (pk, us))"
    and a: "user_agent us = http_user_agent request"
    and i: "Some (ip_address us) \<noteq> get_client_ip request"
  shows "check_session_consistency faults request w
           = (True, write_log INFO (''IP address changed for user '' @ email
                                      @ '': from '' @ ip_address us
                                      @ '' to '' @ str_opt (get_client_ip request)) None w)
       \<and> fst (validate_session_security faults request w)
           = (\<not> (CacheGetRate \<notin> faults \<and> rate_exceeded request w))"
proof -
  have c: "check_session_consistency faults request w
           = (True, write_log INFO (''IP address changed for user '' @ email
                                      @ '': from '' @ ip_address us
                                      @ '' to '' @ str_opt (get_client_ip request)) None w)"
    using assms by (simp add: check_session_consistency_def Let_def)
  then show ?thesis
    using u by (simp add: validate_session_security_result)
qed

text \<open>
  Claim C7.  For an authenticated request with a resolved session: (1) when the stored
  user agent differs from the one of the request, \<open>_check_session_consistency\<close> and
  \<open>_validate_session_security\<close> return \<open>False\<close> (the mismatch is logged as "User agent
  changed"); (2) in \<open>process_request\<close>, when the session found for the request has another
  user agent, the answer is the 403 response and the session is ended in the table;
  (3) when the user agents are equal and only the stored address differs, the
  consistency check returns \<open>True\<close> and its only effect is one INFO log line; the
  validation then passes unless the separate request-rate check objects.
\<close>

theorem session_consistency_asymmetric:
  "(req_user request = CustomUser uid email \<and> user_session request = Some (Some (pk, us))
      \<and> user_agent us \<noteq> http_user_agent request
    \<longrightarrow> fst (check_session_consistency faults request w) = False
      \<and> fst (validate_session_security faults request w) = False
      \<and> (ConsistencyBody \<notin> faults \<longrightarrow>
            Log WARNING (''User agent changed for user '' @ email) None
              \<in> set (logs (snd (check_session_consistency faults request w)))))
   \<and> (\<not> should_skip_session_management rq \<and> req_user rq = CustomUser uid1 email1
        \<and> DbLookup \<notin> faults1 \<and> DbSaveLastActivity \<notin> faults1 \<and> DbSaveEnd \<notin> faults1
        \<and> lookup_session uid1 (django_session_key rq) (sessions w0) = Some (pk1, row)
        \<and> user_agent row \<noteq> http_user_agent rq
    \<longrightarrow> fst (Session_process_request parse limit faults1 now t rq w0)
          = Inr (Some security_violation_response)
      \<and> status security_violation_response = 403
      \<and> is_active (sessions (snd (snd (Session_process_request parse limit faults1 now t rq w0))) ! pk1)
          = False
      \<and> ended_at (sessions (snd (snd (Session_process_request parse limit faults1 now t rq w0))) ! pk1)
          = Some now)
   \<and> (ConsistencyBody \<notin> faults2 \<and> req_user r2 = CustomUser uid2 email2
        \<and> user_session r2 = Some (Some (pk2, us2))
        \<and> user_agent us2 = http_user_agent r2 \<and> Some (ip_address us2) \<noteq> get_client_ip r2
    \<longrightarrow> check_session_consistency faults2 r2 w2
          = (True, write_log INFO (''IP address changed for user '' @ email2
                                     @ '': from '' @ ip_address us2
                                     @ '' to '' @ str_opt (get_client_ip r2)) None w2)
      \<and> fst (validate_session_security faults2 r2 w2)
          = (\<not> (CacheGetRate \<notin> faults2 \<and> rate_exceeded r2 w2)))"
proof (intro conjI impI)
  assume "req_user request = CustomUser uid email \<and> user_session request = Some (Some (pk, us))
      \<and> user_agent us \<noteq> http_user_agent request"
  then have h: "req_user request = CustomUser uid email" "user_session request = Some (Some (pk, us))"
    "user_agent us \<noteq> http_user_agent request" by simp_all
  note r = user_agent_mismatch_fails[OF h, of faults w]
  from r show "fst (check_session_consistency faults request w) = False" by simp
  from r show "fst (validate_session_security faults request w) = False" by simp
  assume "ConsistencyBody \<notin> faults"
  with r show "Log WARNING (''User agent changed for user '' @ email) None
              \<in> set (logs (snd (check_session_consistency faults request w)))" by simp
next
  assume "\<not> should_skip_session_management rq \<and> req_user rq = CustomUser uid1 email1
        \<and> DbLookup \<notin> faults1 \<and> DbSaveLastActivity \<notin> faults1 \<and> DbSaveEnd \<notin> faults1
        \<and> lookup_session uid1 (django_session_key rq) (sessions w0) = Some (pk1, row)
        \<and> user_agent row \<noteq> http_user_agent rq"
  then have h: "\<not> should_skip_session_management rq" "req_user rq = CustomUser uid1 email1"
    "DbLookup \<notin> faults1" "DbSaveLastActivity \<notin> faults1" "DbSaveEnd \<notin> faults1"
    "lookup_session uid1 (django_session_key rq) (sessions w0) = Some (pk1, row)"
    "user_agent row \<noteq> http_user_agent rq" by simp_all
  note r = user_agent_mismatch_ends_session[OF h, of parse limit now t]
  from r show "fst (Session_process_request parse limit faults1 now t rq w0)
          = Inr (Some security_violation_response)" by simp
  from r show "status security_violation_response = 403" by simp
  from r show "is_active (sessions (snd (snd (Session_process_request parse limit faults1 now t rq w0))) ! pk1)
          = False" by simp
  from r show "ended_at (sessions (snd (snd (Session_process_request parse limit faults1 now t rq w0))) ! pk1)
          = Some now" by simp
next
  assume "ConsistencyBody \<notin> faults2 \<and> req_user r2 = CustomUser uid2 email2
        \<and> user_session r2 = Some (Some (pk2, us2))
        \<and> user_agent us2 = http_user_agent r2 \<and> Some (ip_address us2) \<noteq> get_client_ip r2"
  then have h: "ConsistencyBody \<notin> faults2" "req_user r2 = CustomUser uid2 email2"
    "user_session r2 = Some (Some (pk2, us2))"
    "user_agent us2 = http_user_agent r2" "Some (ip_address us2) \<noteq> get_client_ip r2" by simp_all
  note r = ip_change_passes[OF h, of w2]
  from r show "check_session_consistency faults2 r2 w2
          = (True, write_log INFO (''IP address changed for user '' @ email2
                                     @ '': from '' @ ip_address us2
                                     @ '' to '' @ str_opt (get_client_ip r2)) None w2)" by simp
  from r show "fst (validate_session_security faults2 r2 w2)
          = (\<not> (CacheGetRate \<notin> faults2 \<and> rate_exceeded r2 w2))" by simp
qed


text \<open>
  Scenario B as the witness: stored fingerprint \<open>UA-A\<close> against incoming \<open>UA-B\<close> fails, is
  answered with 403 and ends the session; stored address \<open>1.1.1.1\<close> against incoming
  \<open>2.2.2.2\<close> with the same fingerprint passes, with one log line.
\<close>

theorem session_consistency_asymmetric_witness:
  "fst (check_session_consistency {}
          (sample_request\<lparr>HTTP_USER_AGENT := Some ''UA-B'',
                           user_session := Some (Some (0, sample_session))\<rparr>) sample_world) = False
   \<and> fst (validate_session_security {}
          (sample_request\<lparr>HTTP_USER_AGENT := Some ''UA-B'',
                           user_session := Some (Some (0, sample_session))\<rparr>) sample_world) = False
   \<and> fst (Session_process_request sample_parse 5 {} 100 0
            (sample_request\<lparr>HTTP_USER_AGENT := Some ''UA-B''\<rparr>) sample_world)
       = Inr (Some security_violation_response)
   \<and> is_active (sessions (snd (snd (Session_process_request sample_parse 5 {} 100 0
            (sample_request\<lparr>HTTP_USER_AGENT := Some ''UA-B''\<rparr>) sample_world))) ! 0) = False
   \<and> ended_at (sessions (snd (snd (Session_process_request sample_parse 5 {} 100 0
            (sample_request\<lparr>HTTP_USER_AGENT := Some ''UA-B''\<rparr>) sample_world))) ! 0) = Some 100
   \<and> check_session_consistency {}
          (sample_request\<lparr>REMOTE_ADDR := Some ''2.2.2.2'',
                           user_session := Some (Some (0, sample_session))\<rparr>) sample_world
       = (True, sample_world\<lparr>logs :=
            [Log INFO ''IP address changed for user user@example.com: from 1.1.1.1 to 2.2.2.2''
               None]\<rparr>)
   \<and> fst (validate_session_security {}
          (sample_request\<lparr>REMOTE_ADDR := Some ''2.2.2.2'',
                           user_session := Some (Some (0, sample_session))\<rparr>) sample_world) = True"
proof -
  let ?ra = "sample_request\<lparr>HTTP_USER_AGENT := Some ''UA-B'',
                           user_session := Some (Some (0, sample_session))\<rparr>"
  let ?rb = "sample_request\<lparr>HTTP_USER_AGENT := Some ''UA-B''\<rparr>"
  let ?rc = "sample_request\<lparr>REMOTE_ADDR := Some ''2.2.2.2'',
                           user_session := Some (Some (0, sample_session))\<rparr>"
  note t = session_consistency_asymmetric[where request = ?ra and uid = 7
      and email = "''user@example.com''" and pk = 0 and us = sample_session and faults = "{}"
      and w = sample_world
      and rq = ?rb and ?uid1.0 = 7 and ?email1.0 = "''user@example.com''" and ?faults1.0 = "{}"
      and ?w0.0 = sample_world and ?pk1.0 = 0 and row = sample_session
      and parse = sample_parse and limit = 5 and now = 100 and t = 0
      and ?faults2.0 = "{}" and ?r2.0 = ?rc and ?uid2.0 = 7 and ?email2.0 = "''user@example.com''"
      and ?pk2.0 = 0 and ?us2.0 = sample_session and ?w2.0 = sample_world]
  have ha: "req_user ?ra = CustomUser 7 ''user@example.com''
      \<and> user_session ?ra = Some (Some (0, sample_session))
      \<and> user_agent sample_session \<noteq> http_user_agent ?ra"
    by (simp add: sample_request_def sample_session_def http_user_agent_def)
  have hb: "\<not> should_skip_session_management ?rb \<and> req_user ?rb = CustomUser 7 ''user@example.com''
        \<and> DbLookup \<notin> {} \<and> DbSaveLastActivity \<notin> {} \<and> DbSaveEnd \<notin> {}
        \<and> lookup_session 7 (django_session_key ?rb) (sessions sample_world) = Some (0, sample_session)
        \<and> user_agent sample_session \<noteq> http_user_agent ?rb"
    by (simp add: sample_request_def sample_session_def sample_world_def http_user_agent_def
        should_skip_session_management_def skip_paths_def lookup_session_def)
  have hc: "ConsistencyBody \<notin> {} \<and> req_user ?rc = CustomUser 7 ''user@example.com''
        \<and> user_session ?rc = Some (Some (0, sample_session))
        \<and> user_agent sample_session = http_user_agent ?rc
        \<and> Some (ip_address sample_session) \<noteq> get_client_ip ?rc"
    by (simp add: sample_request_def sample_session_def http_user_agent_def get_client_ip_def)
  have rate: "\<not> rate_exceeded ?rc sample_world"
    by (simp add: rate_exceeded_def sample_world_def)
  have lg: "write_log INFO (''IP address changed for user '' @ ''user@example.com''
                                     @ '': from '' @ ip_address sample_session
                                     @ '' to '' @ str_opt (get_client_ip ?rc)) None sample_world
       = sample_world\<lparr>logs :=
            [Log INFO ''IP address changed for user user@example.com: from 1.1.1.1 to 2.2.2.2''
               None]\<rparr>"
    by (simp add: write_log_def sample_world_def sample_session_def sample_request_def
        get_client_ip_def str_opt_def)
  from t ha have a: "fst (check_session_consistency {} ?ra sample_world) = False
      \<and> fst (validate_session_security {} ?ra sample_world) = False" by blast
  from t hb have b: "fst (Session_process_request sample_parse 5 {} 100 0 ?rb sample_world)
          = Inr (Some security_violation_response)
      \<and> is_active (sessions (snd (snd (Session_process_request sample_parse 5 {} 100 0 ?rb sample_world))) ! 0)
          = False
      \<and> ended_at (sessions (snd (snd (Session_process_request sample_parse 5 {} 100 0 ?rb sample_world))) ! 0)
          = Some 100" by blast
  from t hc have c: "check_session_consistency {} ?rc sample_world
          = (True, write_log INFO (''IP address changed for user '' @ ''user@example.com''
                                     @ '': from '' @ ip_address sample_session
                                     @ '' to '' @ str_opt (get_client_ip ?rc)) None sample_world)
      \<and> fst (validate_session_security {} ?rc sample_world)
          = (\<not> (CacheGetRate \<notin> {} \<and> rate_exceeded ?rc sample_world))" by blast
  from c rate lg have c': "check_session_consistency {} ?rc sample_world
       = (True, sample_world\<lparr>logs :=
            [Log INFO ''IP address changed for user user@example.com: from 1.1.1.1 to 2.2.2.2''
               None]\<rparr>)
      \<and> fst (validate_session_security {} ?rc sample_world) = True" by simp
  from a b c' show ?thesis by blast
qed

section \<open>Error identifiers of the error responses\<close>

lemma process_exception_error_id:
  "EdgeCase_process_exception mw debug tb error_id request exception = (Some r, mw1)
     \<Longrightarrow> map_of (body r) ''error_id'' = Some (JStr error_id)"
  by (auto simp: EdgeCase_process_exception_def handle_database_error_def
        handle_validation_error_def handle_permission_error_def handle_not_found_error_def
        handle_external_api_error_def handle_generic_error_def external_error_response_def
        service_unavailable_response_def JsonResponse_def Let_def
      split: if_splits option.splits prod.splits)

lemma validate_request_data_no_error_id:
  "validate_request_data request = Some r \<Longrightarrow> map_of (body r) ''error_id'' = None"
  by (auto simp: validate_request_data_def JsonResponse_def split: if_splits)

lemma health_gate_error_id:
  "\<not> check_system_health db_ok cache_ok \<Longrightarrow>
     EdgeCase_process_request new_id now db_ok cache_ok request
       = (Some (create_health_check_response
                  (request\<lparr>request_id := Some new_id, start_time := Some now\<rparr>)),
          request\<lparr>request_id := Some new_id, start_time := Some now\<rparr>)
     \<and> map_of (body (create_health_check_response
                  (request\<lparr>request_id := Some new_id, start_time := Some now\<rparr>))) ''error_id''
         = Some (JStr new_id)
     \<and> status (create_health_check_response
                  (request\<lparr>request_id := Some new_id, start_time := Some now\<rparr>)) = 503"
  by (simp add: EdgeCase_process_request_def create_health_check_response_def
      request_id_or_unknown_def JsonResponse_def Let_def)

text \<open>
  Claim C5, as the code has it.  Every response that \<open>process_exception\<close> of
  EdgeCaseHandlingMiddleware or of ErrorHandlingMiddleware makes for an exception
  carries, as \<open>error_id\<close>, the identifier drawn with \<open>uuid4\<close> for that exception, whatever
  the request id is; so it differs from the request id whenever the two draws differ.
  The 503 response of the health gate carries the request id itself as \<open>error_id\<close> (the id
  \<open>process_request\<close> has just given the request, or \<open>unknown\<close>).  The responses of the
  validation gate (413, 400) and of the session middleware (403, 429) carry no
  \<open>error_id\<close>.
\<close>

theorem error_id_of_error_responses:
  "(EdgeCase_process_exception mw debug tb error_id request exception = (Some r, mw1)
      \<longrightarrow> map_of (body r) ''error_id'' = Some (JStr error_id)
        \<and> (request_id request \<noteq> Some error_id
             \<longrightarrow> map_of (body r) ''error_id'' \<noteq> map_option JStr (request_id request)))
   \<and> map_of (body (ErrorHandling_process_exception debug tb error_id exception)) ''error_id''
       = Some (JStr error_id)
   \<and> map_of (body (create_health_check_response request)) ''error_id''
       = Some (JStr (request_id_or_unknown request))
   \<and> (\<not> check_system_health db_ok cache_ok
      \<longrightarrow> (\<exists>h request1. EdgeCase_process_request new_id now db_ok cache_ok request = (Some h, request1)
            \<and> status h = 503 \<and> request_id request1 = Some new_id
            \<and> map_of (body h) ''error_id'' = map_option JStr (request_id request1)))
   \<and> (validate_request_data request = Some v \<longrightarrow> map_of (body v) ''error_id'' = None)
   \<and> map_of (body security_violation_response) ''error_id'' = None
   \<and> map_of (body create_concurrent_session_response) ''error_id'' = None"
proof (intro conjI impI)
  assume a: "EdgeCase_process_exception mw debug tb error_id request exception = (Some r, mw1)"
  from process_exception_error_id[OF a]
  show e: "map_of (body r) ''error_id'' = Some (JStr error_id)" .
  assume "request_id request \<noteq> Some error_id"
  with e show "map_of (body r) ''error_id'' \<noteq> map_option JStr (request_id request)"
    by (cases "request_id request") auto
next
  show "map_of (body (ErrorHandling_process_exception debug tb error_id exception)) ''error_id''
       = Some (JStr error_id)"
    by (simp add: ErrorHandling_process_exception_def JsonResponse_def)
  show "map_of (body (create_health_check_response request)) ''error_id''
       = Some (JStr (request_id_or_unknown request))"
    by (simp add: create_health_check_response_def JsonResponse_def)
  show "map_of (body security_violation_response) ''error_id'' = None"
    by (simp add: security_violation_response_def JsonResponse_def)
  show "map_of (body create_concurrent_session_response) ''error_id'' = None"
    by (simp add: create_concurrent_session_response_def JsonResponse_def)
next
  assume "\<not> check_system_health db_ok cache_ok"
  from health_gate_error_id[OF this, of new_id now request]
  show "\<exists>h request1. EdgeCase_process_request new_id now db_ok cache_ok request = (Some h, request1)
            \<and> status h = 503 \<and> request_id request1 = Some new_id
            \<and> map_of (body h) ''error_id'' = map_option JStr (request_id request1)"
    by simp
next
  assume "validate_request_data request = Some v"
  then show "map_of (body v) ''error_id'' = None" by (rule validate_request_data_no_error_id)
qed

text \<open>
  The run of the repository's integration test as the witness: the response to the
  \<open>Timeout\<close> on the openai request carries the drawn identifier \<open>e1\<close>, not the request id
  \<open>request-1\<close>; and the health gate, with the database probe failing, answers 503 with
  the new request id as \<open>error_id\<close>.
\<close>

theorem error_id_of_error_responses_witness:
  "fst (EdgeCase_process_exception init_edge_middleware False [] ''e1'' openai_request openai_timeout)
     = Some (external_error_response openai_timeout ''e1'')
   \<and> map_of (body (external_error_response openai_timeout ''e1'')) ''error_id'' = Some (JStr ''e1'')
   \<and> request_id openai_request = Some ''request-1''
   \<and> map_of (body (the (fst (EdgeCase_process_request ''request-2'' 0 False True openai_request))))
        ''error_id'' = Some (JStr ''request-2'')
   \<and> map_of (body (the (validate_request_data
        (openai_request\<lparr>req_method := ''POST'', CONTENT_LENGTH := Some (Some 11534336)\<rparr>))))
        ''error_id'' = None"
proof -
  let ?big = "openai_request\<lparr>req_method := ''POST'', CONTENT_LENGTH := Some (Some 11534336)\<rparr>"
  let ?v = "JsonResponse
                   [(''error'', JStr ''Request too large''),
                    (''message'', JStr ''Request body exceeds maximum allowed size.''),
                    (''code'', JStr ''REQUEST_TOO_LARGE'')]
                   413"
  have p1: "fst (EdgeCase_process_exception init_edge_middleware False [] ''e1'' openai_request
                   openai_timeout)
      = Some (external_error_response openai_timeout ''e1'')"
    using request_exception_is_502[OF init_all_closed, of openai_timeout False "[]" "''e1''" openai_request]
    by (simp add: isinstance_def openai_timeout_def)
  then have p: "EdgeCase_process_exception init_edge_middleware False [] ''e1'' openai_request openai_timeout
      = (Some (external_error_response openai_timeout ''e1''),
         snd (EdgeCase_process_exception init_edge_middleware False [] ''e1'' openai_request openai_timeout))"
    by (simp add: prod_eq_iff)
  have nh: "\<not> check_system_health False True" by (simp add: check_system_health_def)
  have vd: "validate_request_data ?big = Some ?v"
    by (simp add: validate_request_data_def openai_request_def body_methods_def)
  have rid: "request_id openai_request = Some ''request-1''" by (simp add: openai_request_def)
  note t = error_id_of_error_responses[where mw = init_edge_middleware and debug = False
      and tb = "[]" and error_id = "''e1''" and request = openai_request
      and exception = openai_timeout and r = "external_error_response openai_timeout ''e1''"
      and ?mw1.0 = "snd (EdgeCase_process_exception init_edge_middleware False [] ''e1''
                           openai_request openai_timeout)"
      and db_ok = False and cache_ok = True and new_id = "''request-2''" and now = 0]
  from t p have 1: "map_of (body (external_error_response openai_timeout ''e1'')) ''error_id''
       = Some (JStr ''e1'')" by blast
  from t nh obtain h request1
    where h: "EdgeCase_process_request ''request-2'' 0 False True openai_request = (Some h, request1)"
      "request_id request1 = Some ''request-2''"
      "map_of (body h) ''error_id'' = map_option JStr (request_id request1)"
    by blast
  then have 2: "map_of (body (the (fst (EdgeCase_process_request ''request-2'' 0 False True
      openai_request)))) ''error_id'' = Some (JStr ''request-2'')" by simp
  have 3: "map_of (body (the (validate_request_data ?big))) ''error_id'' = None"
    using validate_request_data_no_error_id[OF vd] vd by simp
  from p1 1 2 3 rid show ?thesis by blast
qed

text \<open>
  The claim as stated includes the health gate.  With the database probe failing, the
  503 response to a request that has just been given the id \<open>request-2\<close> carries
  \<open>request-2\<close> as its \<open>error_id\<close>: the error id is the request id.
\<close>

theorem health_gate_error_id_is_request_id:
  "EdgeCase_process_request ''request-2'' 0 False True openai_request
     = (Some (create_health_check_response
                (openai_request\<lparr>request_id := Some ''request-2'', start_time := Some 0\<rparr>)),
        openai_request\<lparr>request_id := Some ''request-2'', start_time := Some 0\<rparr>)
   \<and> status (create_health_check_response
                (openai_request\<lparr>request_id := Some ''request-2'', start_time := Some 0\<rparr>)) = 503
   \<and> map_of (body (create_health_check_response
                (openai_request\<lparr>request_id := Some ''request-2'', start_time := Some 0\<rparr>)))
        ''error_id'' = Some (JStr ''request-2'')
   \<and> request_id (openai_request\<lparr>request_id := Some ''request-2'', start_time := Some 0\<rparr>)
        = Some ''request-2''"
  by (simp add: EdgeCase_process_request_def check_system_health_def
      create_health_check_response_def request_id_or_unknown_def JsonResponse_def Let_def)

section \<open>Failures inside the session layer\<close>

lemma n_errors_write_log [simp]:
  "n_errors (write_log lv msg e w) = n_errors w + (if lv = ERROR then 1 else 0)"
  by (simp add: n_errors_def write_log_def)

lemma n_errors_update [simp]:
  "n_errors (w\<lparr>sessions := s\<rparr>) = n_errors w"
  "n_errors (w\<lparr>user_last_activity := u\<rparr>) = n_errors w"
  "n_errors (w\<lparr>request_rate := r\<rparr>) = n_errors w"
  "n_errors (w\<lparr>anonymous_sessions := a\<rparr>) = n_errors w"
  by (simp_all add: n_errors_def)

lemma create_new_user_session_quiet:
  "n_errors w \<le> n_errors (snd (create_new_user_session parse faults now request w))
   \<and> (n_errors (snd (create_new_user_session parse faults now request w)) = n_errors w
        \<longrightarrow> create_new_user_session parse faults now request w
              = create_new_user_session parse {} now request w)"
  by (auto simp: create_new_user_session_def Let_def split: user.splits option.splits)

lemma get_or_create_user_session_quiet:
  "n_errors w \<le> n_errors (snd (get_or_create_user_session parse faults now request w))
   \<and> (n_errors (snd (get_or_create_user_session parse faults now request w)) = n_errors w
        \<longrightarrow> get_or_create_user_session parse faults now request w
              = get_or_create_user_session parse {} now request w)"
  using create_new_user_session_quiet[of w parse faults now request]
  by (auto simp: get_or_create_user_session_def Let_def split: user.splits option.splits)

lemma update_user_activity_quiet:
  "n_errors w \<le> n_errors (update_user_activity faults now u w)
   \<and> (n_errors (update_user_activity faults now u w) = n_errors w
        \<longrightarrow> update_user_activity faults now u w = update_user_activity {} now u w)"
  by (auto simp: update_user_activity_def split: user.splits)

lemma handle_anonymous_session_quiet:
  "n_errors w \<le> n_errors (handle_anonymous_session faults now request w)
   \<and> (n_errors (handle_anonymous_session faults now request w) = n_errors w
        \<longrightarrow> handle_anonymous_session faults now request w
              = handle_anonymous_session {} now request w)"
  by (auto simp: handle_anonymous_session_def Let_def)

lemma handle_authenticated_session_quiet:
  "n_errors w \<le> n_errors (snd (handle_authenticated_session parse faults now request w))
   \<and> (n_errors (snd (handle_authenticated_session parse faults now request w)) = n_errors w
        \<longrightarrow> handle_authenticated_session parse faults now request w
              = handle_authenticated_session parse {} now request w)"
proof -
  obtain us w1 where g: "get_or_create_user_session parse faults now request w = (us, w1)"
    by (cases "get_or_create_user_session parse faults now request w") auto
  let ?r1 = "request\<lparr>user_session := Some us\<rparr>"
  let ?w2 = "update_user_activity faults now (req_user ?r1) w1"
  note q1 = get_or_create_user_session_quiet[of w parse faults now request]
  note q2 = update_user_activity_quiet[of w1 faults now "req_user ?r1"]
  have m1: "n_errors w \<le> n_errors w1" using q1 g by simp
  have m2: "n_errors w1 \<le> n_errors ?w2" using q2 by simp
  obtain r3 w3 where h: "handle_authenticated_session parse faults now request w = (r3, w3)"
    by (cases "handle_authenticated_session parse faults now request w") auto
  have m3: "n_errors ?w2 \<le> n_errors w3"
    using h g by (auto simp: handle_authenticated_session_def Let_def split: option.splits prod.splits)
  have mono: "n_errors w \<le> n_errors w3" using m1 m2 m3 by linarith
  have quiet: "handle_authenticated_session parse faults now request w
              = handle_authenticated_session parse {} now request w" if eq: "n_errors w3 = n_errors w"
  proof -
    have e1: "n_errors w1 = n_errors w" and e2: "n_errors ?w2 = n_errors w1"
      using eq m1 m2 m3 by linarith+
    have g0: "get_or_create_user_session parse {} now request w = (us, w1)"
      using q1 g e1 by simp
    have u0: "update_user_activity {} now (req_user ?r1) w1 = ?w2" using q2 e2 by simp
    show ?thesis using g g0 u0
      by (simp add: handle_authenticated_session_def Let_def split: option.splits prod.splits)
  qed
  show ?thesis using mono quiet h by simp
qed

lemma resolved_quiet:
  "n_errors w \<le> n_errors (snd (resolved parse faults now t request w))
   \<and> (n_errors (snd (resolved parse faults now t request w)) = n_errors w
        \<longrightarrow> resolved parse faults now t request w = resolved parse {} now t request w)"
  using handle_authenticated_session_quiet[of w parse faults now "request\<lparr>session_start_time := Some t\<rparr>"]
    handle_anonymous_session_quiet[of w faults now "request\<lparr>session_start_time := Some t\<rparr>"]
  by (simp add: resolved_def Let_def)

lemma check_session_consistency_quiet:
  "n_errors w \<le> n_errors (snd (check_session_consistency faults request w))
   \<and> (n_errors (snd (check_session_consistency faults request w)) = n_errors w
        \<longrightarrow> check_session_consistency faults request w
              = check_session_consistency {} request w)"
  by (auto simp: check_session_consistency_def Let_def split: option.splits prod.splits)

lemma detect_suspicious_activity_quiet:
  "n_errors w \<le> n_errors (snd (detect_suspicious_activity faults request w))
   \<and> (n_errors (snd (detect_suspicious_activity faults request w)) = n_errors w
        \<longrightarrow> detect_suspicious_activity faults request w
              = detect_suspicious_activity {} request w)"
  by (auto simp: detect_suspicious_activity_def Let_def split: option.splits)

lemma validate_session_security_quiet:
  "n_errors w \<le> n_errors (snd (validate_session_security faults request w))
   \<and> (n_errors (snd (validate_session_security faults request w)) = n_errors w
        \<longrightarrow> validate_session_security faults request w
              = validate_session_security {} request w)"
proof (cases "req_user request")
  case AnonymousUser
  then show ?thesis by (simp add: validate_session_security_def)
next
  case (CustomUser uid email)
  obtain c w1 where c: "check_session_consistency faults request w = (c, w1)"
    by (cases "check_session_consistency faults request w") auto
  obtain d w2 where d: "detect_suspicious_activity faults request w1 = (d, w2)"
    by (cases "detect_suspicious_activity faults request w1") auto
  note q1 = check_session_consistency_quiet[of w faults request]
  note q2 = detect_suspicious_activity_quiet[of w1 faults request]
  have m1: "n_errors w \<le> n_errors w1" using q1 c by simp
  have m2: "n_errors w1 \<le> n_errors w2" using q2 d by simp
  show ?thesis
  proof (cases c)
    case False
    have v: "validate_session_security faults request w
          = (False, write_log WARNING (''Session consistency check failed for user '' @ email) None w1)"
      using CustomUser c False by (simp add: validate_session_security_def)
    have "validate_session_security faults request w = validate_session_security {} request w"
      if "n_errors w1 = n_errors w"
    proof -
      from q1 c that have "check_session_consistency {} request w = (c, w1)" by simp
      then show ?thesis using v CustomUser False by (simp add: validate_session_security_def)
    qed
    then show ?thesis using v m1 by simp
  next
    case True
    have v: "validate_session_security faults request w
          = (if d then (False, write_log WARNING (''Suspicious activity detected for user '' @ email) None w2)
             else (True, w2))"
      using CustomUser c d True by (cases d) (simp_all add: validate_session_security_def)
    have "validate_session_security faults request w = validate_session_security {} request w"
      if "n_errors w2 = n_errors w"
    proof -
      have e1: "n_errors w1 = n_errors w" and e2: "n_errors w2 = n_errors w1"
        using that m1 m2 by linarith+
      from q1 c e1 have c0: "check_session_consistency {} request w = (c, w1)" by simp
      from q2 d e2 have d0: "detect_suspicious_activity {} request w1 = (d, w2)" by simp
      show ?thesis using v c0 d0 CustomUser True
        by (cases d) (simp_all add: validate_session_security_def)
    qed
    then show ?thesis using v m1 m2 by (cases d) auto
  qed
qed

lemma check_concurrent_sessions_quiet:
  "n_errors w \<le> n_errors (snd (check_concurrent_sessions limit faults now request w))
   \<and> (n_errors (snd (check_concurrent_sessions limit faults now request w)) = n_errors w
        \<longrightarrow> check_concurrent_sessions limit faults now request w
              = check_concurrent_sessions limit {} now request w)"
  by (auto simp: check_concurrent_sessions_def end_session_def Let_def
           split: user.splits option.splits sum.splits if_splits)

lemma create_security_violation_response_quiet:
  "n_errors (snd (snd (create_security_violation_response faults now request w))) = n_errors w
   \<and> (create_security_violation_response faults now request w
         = create_security_violation_response {} now request w
       \<or> fst (create_security_violation_response faults now request w) = Inl (Fault DbSaveEnd))"
  by (auto simp: create_security_violation_response_def end_session_def Let_def
           split: option.splits prod.splits sum.splits if_splits)


lemma process_request_unfold:
  "Session_process_request parse limit faults now t request w =
     (if should_skip_session_management request then (Inr None, request, w)
      else
        (case resolved parse faults now t request w of
           (request2, w1) \<Rightarrow>
             (case validate_session_security faults request2 w1 of
                (False, w2) \<Rightarrow>
                  (case create_security_violation_response faults now request2 w2 of
                     (Inl e, request3, w3) \<Rightarrow> (Inl e, request3, w3)
                   | (Inr r, request3, w3) \<Rightarrow> (Inr (Some r), request3, w3))
              | (True, w2) \<Rightarrow>
                  (case check_concurrent_sessions limit faults now request2 w2 of
                     (False, w3) \<Rightarrow> (Inr (Some create_concurrent_session_response), request2, w3)
                   | (True, w3) \<Rightarrow> (Inr None, request2, w3)))))"
  by (simp add: Session_process_request_def resolved_def Let_def)

lemma process_request_quiet:
  assumes q: "n_errors (snd (snd (Session_process_request parse limit faults now t request w)))
                = n_errors w"
  shows "Session_process_request parse limit faults now t request w
           = Session_process_request parse limit {} now t request w
       \<or> fst (Session_process_request parse limit faults now t request w) = Inl (Fault DbSaveEnd)"
proof (cases "should_skip_session_management request")
  case True
  then show ?thesis by (simp add: process_request_unfold)
next
  case False
  obtain request2 w1 where r: "resolved parse faults now t request w = (request2, w1)"
    by (cases "resolved parse faults now t request w") auto
  obtain v w2 where v: "validate_session_security faults request2 w1 = (v, w2)"
    by (cases "validate_session_security faults request2 w1") auto
  note q1 = resolved_quiet[of w parse faults now t request]
  note q2 = validate_session_security_quiet[of w1 faults request2]
  have m1: "n_errors w \<le> n_errors w1" using q1 r by simp
  have m2: "n_errors w1 \<le> n_errors w2" using q2 v by simp
  show ?thesis
  proof (cases v)
    case vt: True
    obtain c w3 where c: "check_concurrent_sessions limit faults now request2 w2 = (c, w3)"
      by (cases "check_concurrent_sessions limit faults now request2 w2") auto
    note q3 = check_concurrent_sessions_quiet[of w2 limit faults now request2]
    have m3: "n_errors w2 \<le> n_errors w3" using q3 c by simp
    have "n_errors w3 = n_errors w"
      using q False r v vt c by (cases c) (simp_all add: process_request_unfold)
    then have e1: "n_errors w1 = n_errors w" and e2: "n_errors w2 = n_errors w1"
      and e3: "n_errors w3 = n_errors w2"
      using m1 m2 m3 by linarith+
    have r0: "resolved parse {} now t request w = (request2, w1)" using q1 r e1 by simp
    have v0: "validate_session_security {} request2 w1 = (v, w2)" using q2 v e2 by simp
    have c0: "check_concurrent_sessions limit {} now request2 w2 = (c, w3)" using q3 c e3 by simp
    show ?thesis using False r v vt c r0 v0 c0 by (simp add: process_request_unfold)
  next
    case vf: False
    obtain out request3 w3
      where o: "create_security_violation_response faults now request2 w2 = (out, request3, w3)"
      by (cases "create_security_violation_response faults now request2 w2") auto
    note q3 = create_security_violation_response_quiet[of faults now request2 w2]
    have e3: "n_errors w3 = n_errors w2" using q3 o by simp
    have "n_errors w3 = n_errors w"
      using q False r v vf o by (cases out) (simp_all add: process_request_unfold)
    then have e1: "n_errors w1 = n_errors w" and e2: "n_errors w2 = n_errors w1"
      using m1 m2 e3 by linarith+
    have r0: "resolved parse {} now t request w = (request2, w1)" using q1 r e1 by simp
    have v0: "validate_session_security {} request2 w1 = (v, w2)" using q2 v e2 by simp
    from q3 have "create_security_violation_response faults now request2 w2
         = create_security_violation_response {} now request2 w2
       \<or> fst (create_security_violation_response faults now request2 w2) = Inl (Fault DbSaveEnd)"
      by simp
    then show ?thesis
    proof
      assume "create_security_violation_response faults now request2 w2
         = create_security_violation_response {} now request2 w2"
      then show ?thesis using False r v vf r0 v0 by (simp add: process_request_unfold)
    next
      assume "fst (create_security_violation_response faults now request2 w2) = Inl (Fault DbSaveEnd)"
      then have "fst (Session_process_request parse limit faults now t request w) = Inl (Fault DbSaveEnd)"
        using False r v vf o by (simp add: process_request_unfold)
      then show ?thesis by simp
    qed
  qed
qed

lemma sample_run:
  "Session_process_request sample_parse 5 {} 100 0 sample_request sample_world
     = (Inr None,
        sample_request\<lparr>session_start_time := Some 0,
           user_session := Some (Some (0, sample_session\<lparr>last_activity := 100\<rparr>))\<rparr>,
        sample_world\<lparr>sessions := [sample_session\<lparr>last_activity := 100\<rparr>],
           user_last_activity := [7 \<mapsto> 100],
           request_rate := [(''1.1.1.1'', Some 7) \<mapsto> 1],
           logs := [Log INFO (''Authenticated session: user=user@example.com''
                                @ '', session_id=abc, ip=1.1.1.1'') None]\<rparr>)"
  by (simp add: process_request_unfold resolved_def should_skip_session_management_def
      skip_paths_def handle_authenticated_session_def get_or_create_user_session_def
      lookup_session_def update_user_activity_def validate_session_security_def
      check_session_consistency_def detect_suspicious_activity_def
      check_concurrent_sessions_def active_sessions_def get_client_ip_def http_user_agent_def
      str_opt_def write_log_def sample_request_def sample_world_def sample_session_def Let_def)

lemma consistency_fault_fails_closed:
  assumes "ConsistencyBody \<in> faults" "DbSaveEnd \<notin> faults"
    and "\<not> should_skip_session_management request" "req_user request = CustomUser uid email"
    and "get_or_create_user_session parse faults now (request\<lparr>session_start_time := Some t\<rparr>) w
           = (Some (pk, row), w1)"
  shows "fst (Session_process_request parse limit faults now t request w)
           = Inr (Some security_violation_response)
       \<and> status security_violation_response = 403
       \<and> sessions (snd (snd (Session_process_request parse limit faults now t request w)))
           = (sessions w1)[pk := (sessions w1 ! pk)\<lparr>is_active := False, ended_at := Some now\<rparr>]"
proof -
  have "status security_violation_response = 403"
    by (simp add: security_violation_response_def JsonResponse_def)
  then show ?thesis
    using process_request_violation[OF assms(3,4,5) _ assms(2), of limit] assms(1) by simp
qed

text \<open>
  What \<open>process_request\<close> does with failures of the session layer.
  (1) Fail-open: whatever fails in session lookup and creation, activity bookkeeping,
  anonymous tracking, the request-rate check and the concurrent-session check, a request
  that proceeds when nothing fails also proceeds when these fail.
  (2) Logged: if no ERROR line is written during \<open>process_request\<close>, then nothing failed
  that mattered: the method returns what it returns without any failure, the one
  exception being a failure of \<open>end_session\<close> inside the security-violation response,
  which leaves the method as an exception.
  (3) Fail-closed: an exception raised inside \<open>_check_session_consistency\<close> for a
  resolved session makes the check return \<open>False\<close>; the session is ended and the request
  is answered with the 403 security-violation response.
\<close>

lemma process_request_swallows_failures:
  "(ConsistencyBody \<notin> faults
      \<and> fst (Session_process_request parse limit {} now t request w) = Inr None
    \<longrightarrow> fst (Session_process_request parse limit faults now t request w) = Inr None)
   \<and> (n_errors (snd (snd (Session_process_request parse limit faults now t request w)))
         = n_errors w
    \<longrightarrow> Session_process_request parse limit faults now t request w
          = Session_process_request parse limit {} now t request w
        \<or> fst (Session_process_request parse limit faults now t request w)
            = Inl (Fault DbSaveEnd))
   \<and> (ConsistencyBody \<in> faults1 \<and> DbSaveEnd \<notin> faults1
        \<and> \<not> should_skip_session_management rq \<and> req_user rq = CustomUser uid email
        \<and> get_or_create_user_session parse faults1 now (rq\<lparr>session_start_time := Some t\<rparr>) w0
             = (Some (pk, row), w1)
    \<longrightarrow> fst (Session_process_request parse limit faults1 now t rq w0)
          = Inr (Some security_violation_response)
      \<and> status security_violation_response = 403
      \<and> sessions (snd (snd (Session_process_request parse limit faults1 now t rq w0)))
          = (sessions w1)[pk := (sessions w1 ! pk)\<lparr>is_active := False, ended_at := Some now\<rparr>])"
proof (intro conjI impI)
  assume "ConsistencyBody \<notin> faults
      \<and> fst (Session_process_request parse limit {} now t request w) = Inr None"
  then show "fst (Session_process_request parse limit faults now t request w) = Inr None"
    using session_faults_fail_open[of faults parse limit now t request w] by simp
next
  assume "n_errors (snd (snd (Session_process_request parse limit faults now t request w)))
         = n_errors w"
  then show "Session_process_request parse limit faults now t request w
          = Session_process_request parse limit {} now t request w
        \<or> fst (Session_process_request parse limit faults now t request w)
            = Inl (Fault DbSaveEnd)"
    by (rule process_request_quiet)
next
  assume a: "ConsistencyBody \<in> faults1 \<and> DbSaveEnd \<notin> faults1
        \<and> \<not> should_skip_session_management rq \<and> req_user rq = CustomUser uid email
        \<and> get_or_create_user_session parse faults1 now (rq\<lparr>session_start_time := Some t\<rparr>) w0
             = (Some (pk, row), w1)"
  then have h: "ConsistencyBody \<in> faults1" "DbSaveEnd \<notin> faults1"
    "\<not> should_skip_session_management rq" "req_user rq = CustomUser uid email"
    "get_or_create_user_session parse faults1 now (rq\<lparr>session_start_time := Some t\<rparr>) w0
             = (Some (pk, row), w1)" by simp_all
  note r = consistency_fault_fails_closed[OF h, of limit]
  from r show "fst (Session_process_request parse limit faults1 now t rq w0)
          = Inr (Some security_violation_response)" by simp
  from r show "status security_violation_response = 403" by simp
  from r show "sessions (snd (snd (Session_process_request parse limit faults1 now t rq w0)))
          = (sessions w1)[pk := (sessions w1 ! pk)\<lparr>is_active := False, ended_at := Some now\<rparr>]"
    by simp
qed

lemma sample_found:
  "get_or_create_user_session sample_parse {ConsistencyBody} 100
       (sample_request\<lparr>session_start_time := Some 0\<rparr>) sample_world
     = (Some (0, sample_session\<lparr>last_activity := 100\<rparr>),
        sample_world\<lparr>sessions := [sample_session\<lparr>last_activity := 100\<rparr>]\<rparr>)"
  by (simp add: get_or_create_user_session_def lookup_session_def sample_request_def
      sample_world_def sample_session_def)

lemma sample_not_skipped:
  "\<not> should_skip_session_management sample_request
   \<and> req_user sample_request = CustomUser 7 ''user@example.com''"
  by (simp add: should_skip_session_management_def skip_paths_def sample_request_def)

text \<open>
  On the sample request: with the session lookup, the user's save and the
  cache read failing, the request still proceeds; with faults at places the request does
  not reach, no ERROR line is written and the run is the run without faults; with a
  fault in the consistency check, the request is answered 403 and the session is ended.
\<close>

lemma process_request_swallows_failures_sample:
  "fst (Session_process_request sample_parse 5 {} 100 0 sample_request sample_world) = Inr None
   \<and> fst (Session_process_request sample_parse 5 {DbLookup, UserSave, CacheGetRate} 100 0
            sample_request sample_world) = Inr None
   \<and> Session_process_request sample_parse 5 {CacheSetAnonymous, UaParse, DbCreate} 100 0
            sample_request sample_world
       = Session_process_request sample_parse 5 {} 100 0 sample_request sample_world
   \<and> fst (Session_process_request sample_parse 5 {ConsistencyBody} 100 0
            sample_request sample_world) = Inr (Some security_violation_response)
   \<and> sessions (snd (snd (Session_process_request sample_parse 5 {ConsistencyBody} 100 0
            sample_request sample_world)))
       = [sample_session\<lparr>last_activity := 100, is_active := False, ended_at := Some 100\<rparr>]"
proof -
  let ?F2 = "{CacheSetAnonymous, UaParse, DbCreate}"
  have ok: "fst (Session_process_request sample_parse 5 {} 100 0 sample_request sample_world)
      = Inr None" by (simp add: sample_run)
  have run2: "Session_process_request sample_parse 5 ?F2 100 0 sample_request sample_world
     = (Inr None,
        sample_request\<lparr>session_start_time := Some 0,
           user_session := Some (Some (0, sample_session\<lparr>last_activity := 100\<rparr>))\<rparr>,
        sample_world\<lparr>sessions := [sample_session\<lparr>last_activity := 100\<rparr>],
           user_last_activity := [7 \<mapsto> 100],
           request_rate := [(''1.1.1.1'', Some 7) \<mapsto> 1],
           logs := [Log INFO (''Authenticated session: user=user@example.com''
                                @ '', session_id=abc, ip=1.1.1.1'') None]\<rparr>)"
    by (simp add: process_request_unfold resolved_def should_skip_session_management_def
      skip_paths_def handle_authenticated_session_def get_or_create_user_session_def
      lookup_session_def update_user_activity_def validate_session_security_def
      check_session_consistency_def detect_suspicious_activity_def
      check_concurrent_sessions_def active_sessions_def get_client_ip_def http_user_agent_def
      str_opt_def write_log_def sample_request_def sample_world_def sample_session_def Let_def)
  have q: "n_errors (snd (snd (Session_process_request sample_parse 5 ?F2 100 0
                                 sample_request sample_world))) = n_errors sample_world"
    unfolding run2 by (simp add: n_errors_def sample_world_def)
  have nf: "ConsistencyBody \<notin> {DbLookup, UserSave, CacheGetRate}" by simp
  note t1 = process_request_swallows_failures[where faults = "{DbLookup, UserSave, CacheGetRate}"
      and parse = sample_parse and limit = 5 and now = 100 and t = 0
      and request = sample_request and w = sample_world
      and ?faults1.0 = "{ConsistencyBody}" and rq = sample_request and uid = 7
      and email = "''user@example.com''" and ?w0.0 = sample_world and pk = 0
      and row = "sample_session\<lparr>last_activity := 100\<rparr>"
      and ?w1.0 = "sample_world\<lparr>sessions := [sample_session\<lparr>last_activity := 100\<rparr>]\<rparr>"]
  note t2 = process_request_swallows_failures[where faults = ?F2
      and parse = sample_parse and limit = 5 and now = 100 and t = 0
      and request = sample_request and w = sample_world]
  from t1 nf ok have 1: "fst (Session_process_request sample_parse 5
      {DbLookup, UserSave, CacheGetRate} 100 0 sample_request sample_world) = Inr None" by blast
  from t2 q have "Session_process_request sample_parse 5 ?F2 100 0 sample_request sample_world
       = Session_process_request sample_parse 5 {} 100 0 sample_request sample_world
     \<or> fst (Session_process_request sample_parse 5 ?F2 100 0 sample_request sample_world)
         = Inl (Fault DbSaveEnd)" by blast
  then have 2: "Session_process_request sample_parse 5 ?F2 100 0 sample_request sample_world
       = Session_process_request sample_parse 5 {} 100 0 sample_request sample_world"
    unfolding run2 by simp
  have h3: "ConsistencyBody \<in> {ConsistencyBody} \<and> DbSaveEnd \<notin> {ConsistencyBody}" by simp
  from t1 h3 sample_not_skipped sample_found
  have 3: "fst (Session_process_request sample_parse 5 {ConsistencyBody} 100 0
            sample_request sample_world) = Inr (Some security_violation_response)
      \<and> sessions (snd (snd (Session_process_request sample_parse 5 {ConsistencyBody} 100 0
            sample_request sample_world)))
          = (sessions (sample_world\<lparr>sessions := [sample_session\<lparr>last_activity := 100\<rparr>]\<rparr>))
              [0 := (sessions (sample_world\<lparr>sessions := [sample_session\<lparr>last_activity := 100\<rparr>]\<rparr>) ! 0)
                      \<lparr>is_active := False, ended_at := Some 100\<rparr>]" by blast
  then have s3: "sessions (snd (snd (Session_process_request sample_parse 5 {ConsistencyBody} 100 0
            sample_request sample_world)))
       = [sample_session\<lparr>last_activity := 100, is_active := False, ended_at := Some 100\<rparr>]"
    by simp
  from ok 1 2 3 s3 show ?thesis by blast
qed

text \<open>
  The sample request proceeds when nothing fails; when an exception is raised inside
  \<open>_check_session_consistency\<close>, the same request is answered with the 403 response.
\<close>

lemma consistency_failure_is_answered_403:
  "fst (Session_process_request sample_parse 5 {} 100 0 sample_request sample_world) = Inr None
   \<and> fst (Session_process_request sample_parse 5 {ConsistencyBody} 100 0
            sample_request sample_world) = Inr (Some security_violation_response)
   \<and> status security_violation_response = 403"
  using consistency_fault_fails_closed[of "{ConsistencyBody}" sample_request 7
      "''user@example.com''" sample_parse 100 0 sample_world 0
      "sample_session\<lparr>last_activity := 100\<rparr>"
      "sample_world\<lparr>sessions := [sample_session\<lparr>last_activity := 100\<rparr>]\<rparr>" 5]
    sample_not_skipped sample_found
  by (simp add: sample_run)

text \<open>
  A swallowed failure of session lookup or creation leaves \<open>request.user_session = None\<close>.
  The code that runs afterwards reads attributes of \<open>request.user_session\<close> wherever the
  attribute is set, in two places outside any \<open>try\<close>: the last statement of
  \<open>process_response\<close>, and \<open>end_session\<close> in \<open>_create_security_violation_response\<close>.
\<close>

lemma end_session_sample: "snd (end_session {} 50 (0, sample_session) sample_world) = Inr ended_world"
  by (simp add: end_session_def ended_world_def sample_world_def Let_def)

lemma process_response_sample:
  "fst (Session_process_response {} (\<lambda>d. ''1000.0'') 2
          (sample_request\<lparr>session_start_time := Some 1,
             user_session := Some (Some (0, sample_session))\<rparr>)
          view_response sample_world)
     = Inr (view_response\<lparr>headers := [''X-Session-Duration'' \<mapsto> ''1000.0ms'',
                                         ''X-Session-ID'' \<mapsto> ''abc'']\<rparr>)"
  by (simp add: Session_process_response_def update_session_activity_def set_header_def
        view_response_def JsonResponse_def sample_request_def sample_world_def
        sample_session_def Let_def)

lemma process_response_without_session:
  assumes "session_start_time request \<noteq> None" and "user_session request = Some None"
  shows "fst (Session_process_response faults show_ms t request response w) = Inl AttributeError"
  using assms
  by (auto simp: Session_process_response_def update_session_activity_def Let_def
           split: prod.splits option.splits)

lemma ended_session_key_with_high_rate:
  "fst (Session_process_request sample_parse 5 {} 100 1 sample_request
          (ended_world\<lparr>request_rate := [(''1.1.1.1'', Some 7) \<mapsto> 101]\<rparr>))
     = Inl AttributeError"
  by (simp add: Session_process_request_def should_skip_session_management_def
      skip_paths_def handle_authenticated_session_def get_or_create_user_session_def
      create_new_user_session_def lookup_session_def update_user_activity_def
      validate_session_security_def check_session_consistency_def
      detect_suspicious_activity_def create_security_violation_response_def
      get_client_ip_def http_user_agent_def
      str_opt_def write_log_def sample_request_def sample_world_def sample_session_def
      ended_world_def Let_def)

text \<open>
  Claim C3 fails on the code.  The sample user sends a request with the key of a session
  that has been ended.  No active session is found and the insert of a new one violates
  the unique key: the failure is logged and swallowed, \<open>request.user_session\<close> is set to
  \<open>None\<close>, and \<open>process_request\<close> returns \<open>None\<close>, so the view runs.  Given the view's
  response, \<open>process_response\<close> then raises \<open>AttributeError\<close>: the request is answered with
  an error, not with the response of the view.
\<close>

theorem ended_session_key_breaks_response:
  "Session_process_request sample_parse 5 {} 100 1 sample_request ended_world
     = (Inr None,
        sample_request\<lparr>session_start_time := Some 1, user_session := Some None\<rparr>,
        ended_world\<lparr>user_last_activity := [7 \<mapsto> 100],
           request_rate := [(''1.1.1.1'', Some 7) \<mapsto> 1],
           logs := [Log ERROR ''Error creating new user session: '' (Some IntegrityError),
                    Log ERROR ''Error handling authenticated session: '' (Some AttributeError)]\<rparr>)
   \<and> fst (Session_process_response {} (\<lambda>d. ''1000.0'') 2
            (sample_request\<lparr>session_start_time := Some 1, user_session := Some None\<rparr>)
            view_response
            (ended_world\<lparr>user_last_activity := [7 \<mapsto> 100],
               request_rate := [(''1.1.1.1'', Some 7) \<mapsto> 1],
               logs := [Log ERROR ''Error creating new user session: '' (Some IntegrityError),
                        Log ERROR ''Error handling authenticated session: ''
                          (Some AttributeError)]\<rparr>))
       = Inl AttributeError"
proof -
  have 1: "Session_process_request sample_parse 5 {} 100 1 sample_request ended_world
     = (Inr None,
        sample_request\<lparr>session_start_time := Some 1, user_session := Some None\<rparr>,
        ended_world\<lparr>user_last_activity := [7 \<mapsto> 100],
           request_rate := [(''1.1.1.1'', Some 7) \<mapsto> 1],
           logs := [Log ERROR ''Error creating new user session: '' (Some IntegrityError),
                    Log ERROR ''Error handling authenticated session: '' (Some AttributeError)]\<rparr>)"
    by (simp add: Session_process_request_def should_skip_session_management_def
      skip_paths_def handle_authenticated_session_def get_or_create_user_session_def
      create_new_user_session_def lookup_session_def update_user_activity_def
      validate_session_security_def check_session_consistency_def
      detect_suspicious_activity_def check_concurrent_sessions_def active_sessions_def
      get_client_ip_def http_user_agent_def
      str_opt_def write_log_def sample_request_def sample_world_def sample_session_def
      ended_world_def Let_def)
  have 2: "fst (Session_process_response {} (\<lambda>d. ''1000.0'') 2
            (sample_request\<lparr>session_start_time := Some 1, user_session := Some None\<rparr>)
            view_response w) = Inl AttributeError" for w
    by (simp add: Session_process_response_def update_session_activity_def sample_request_def
          Let_def split: prod.splits)
  from 1 2 show ?thesis by simp
qed

end
